theory Spec2Isabelle
  imports Complex_Main
begin

section \<open>Python values used by the notebooks\<close>

text \<open>
  Exceptions are values: a function that may raise returns \<open>py_error + 'a\<close>, with
  \<open>Inl\<close> for the exception. \<open>OSError\<close> stands for whatever the waveform reader
  raises on a missing or unreadable file.
\<close>

datatype py_error = ValueError | IndexError | OSError

text \<open>Sequencing: the first exception ends the computation.\<close>

definition py_bind :: "py_error + 'a \<Rightarrow> ('a \<Rightarrow> py_error + 'b) \<Rightarrow> py_error + 'b" where
  "py_bind r f = (case r of Inl e \<Rightarrow> Inl e | Inr v \<Rightarrow> f v)"

subsection \<open>Strings\<close>

text \<open>
  Strings are lists of ASCII characters. \<open>py_int\<close> is the builtin \<open>int(s)\<close> on such a
  string: surrounding whitespace (tab, line feed, vertical tab, form feed, carriage
  return, space) is stripped, one sign is allowed, then decimal digits, where a single
  underscore may stand between two digits; anything else raises \<open>ValueError\<close>.
\<close>

definition isspace :: "char \<Rightarrow> bool" where
  "isspace c = (of_char c \<in> {9, 10, 11, 12, 13, 32 :: nat})"

definition isdigit :: "char \<Rightarrow> bool" where
  "isdigit c = (48 \<le> (of_char c :: nat) \<and> (of_char c :: nat) \<le> 57)"

definition digit_value :: "char \<Rightarrow> nat" where
  "digit_value c = of_char c - 48"

definition strip :: "string \<Rightarrow> string" where
  "strip s = rev (dropWhile isspace (rev (dropWhile isspace s)))"

fun parse_digits :: "nat \<Rightarrow> string \<Rightarrow> nat option" where
  "parse_digits acc [] = Some acc"
| "parse_digits acc [c] = (if isdigit c then Some (acc * 10 + digit_value c) else None)"
| "parse_digits acc (c # d # cs) =
     (if isdigit c then parse_digits (acc * 10 + digit_value c) (d # cs)
      else if c = CHR ''_'' \<and> isdigit d then parse_digits (acc * 10 + digit_value d) cs
      else None)"

definition parse_decimal :: "string \<Rightarrow> nat option" where
  "parse_decimal s =
     (case s of [] \<Rightarrow> None
      | c # cs \<Rightarrow> if isdigit c then parse_digits (digit_value c) cs else None)"

definition py_int :: "string \<Rightarrow> py_error + int" where
  "py_int s =
     (let t = strip s;
          r = (case t of [] \<Rightarrow> None
               | c # cs \<Rightarrow>
                   if c = CHR ''-'' then map_option (\<lambda>n. - int n) (parse_decimal cs)
                   else if c = CHR ''+'' then map_option int (parse_decimal cs)
                   else map_option int (parse_decimal t))
      in case r of None \<Rightarrow> Inl ValueError | Some i \<Rightarrow> Inr i)"

definition endswith :: "string \<Rightarrow> string \<Rightarrow> bool" where
  "endswith s suffix =
     (length suffix \<le> length s \<and> drop (length s - length suffix) s = suffix)"

definition startswith :: "string \<Rightarrow> string \<Rightarrow> bool" where
  "startswith s prefix = (take (length prefix) s = prefix)"

text \<open>
  \<open>s.replace(old, new)\<close>: every occurrence of \<open>old\<close>, found from the left and not
  overlapping, is replaced.
\<close>

fun str_replace :: "string \<Rightarrow> string \<Rightarrow> string \<Rightarrow> string" where
  "str_replace old new [] = (if old = [] then new else [])"
| "str_replace old new (c # cs) =
     (if old = [] then new @ concat (map (\<lambda>x. x # new) (c # cs))
      else if take (length old) (c # cs) = old
        then new @ str_replace old new (drop (length old - 1) cs)
      else c # str_replace old new cs)"

text \<open>\<open>os.path.join(a, b)\<close> of \<open>posixpath\<close>, for two components.\<close>

definition os_path_join :: "string \<Rightarrow> string \<Rightarrow> string" where
  "os_path_join a b =
     (if startswith b ''/'' then b
      else if a = [] \<or> endswith a ''/'' then a @ b
      else a @ ''/'' @ b)"

subsection \<open>Dates\<close>

text \<open>
  \<open>datetime(year, month, day, hour, minute)\<close>: the constructor checks every field and
  raises \<open>ValueError\<close> on one out of range.
\<close>

record datetime =
  year :: int
  month :: int
  day :: int
  hour :: int
  minute :: int

definition is_leap :: "int \<Rightarrow> bool" where
  "is_leap y = (y mod 4 = 0 \<and> (y mod 100 \<noteq> 0 \<or> y mod 400 = 0))"

definition days_in_month :: "int \<Rightarrow> int \<Rightarrow> int" where
  "days_in_month y m =
     (if m = 2 then (if is_leap y then 29 else 28)
      else if m = 4 \<or> m = 6 \<or> m = 9 \<or> m = 11 then 30 else 31)"

definition datetime_new :: "int \<Rightarrow> int \<Rightarrow> int \<Rightarrow> int \<Rightarrow> int \<Rightarrow> py_error + datetime" where
  "datetime_new y m d h mi =
     (if \<not> (1 \<le> y \<and> y \<le> 9999) then Inl ValueError
      else if \<not> (1 \<le> m \<and> m \<le> 12) then Inl ValueError
      else if \<not> (1 \<le> d \<and> d \<le> days_in_month y m) then Inl ValueError
      else if \<not> (0 \<le> h \<and> h \<le> 23) then Inl ValueError
      else if \<not> (0 \<le> mi \<and> mi \<le> 59) then Inl ValueError
      else Inr \<lparr>year = y, month = m, day = d, hour = h, minute = mi\<rparr>)"

section \<open>Length fixing: \<open>pad_or_trim\<close> (inference notebook)\<close>

text \<open>
  \<^verbatim>\<open>
  def pad_or_trim(signal, target_length=8000):
      if len(signal) > target_length:
          return signal[:target_length]
      elif len(signal) < target_length:
          pad_width = target_length - len(signal)
          return np.pad(signal, (0, pad_width), mode='constant')
      return signal
  \<close>
  A signal is the sample array of a trace, a list of reals here. The slice
  \<open>signal[:target_length]\<close> keeps the first \<open>target_length\<close> samples;
  \<open>np.pad(signal, (0, pad_width), mode='constant')\<close> appends \<open>pad_width\<close> zeros and
  prepends none.
\<close>

definition np_pad_constant :: "real list \<Rightarrow> nat \<Rightarrow> nat \<Rightarrow> real list" where
  "np_pad_constant signal before after = replicate before 0 @ signal @ replicate after 0"

definition pad_or_trim :: "real list \<Rightarrow> nat \<Rightarrow> real list" where
  "pad_or_trim signal target_length =
     (if length signal > target_length then take target_length signal
      else if length signal < target_length then
        (let pad_width = target_length - length signal
         in np_pad_constant signal 0 pad_width)
      else signal)"

text \<open>The default value of the parameter \<open>target_length\<close>.\<close>

definition default_target_length :: nat where
  "default_target_length = 8000"

section \<open>Absolute timestamps from predictions (inference notebook)\<close>

text \<open>
  \<^verbatim>\<open>
  def extract_datetime(filename):
      datetime_str = filename.replace('.mseed', '')
      month = int(datetime_str[0:2])
      day = int(datetime_str[2:4])
      hour = int(datetime_str[4:6])
      minute = int(datetime_str[6:8])
      # Construct datetime - use 2024 as base year
      from datetime import datetime
      return datetime(2024, month, day, hour, minute)
  \<close>
  A slice \<open>s[a:b]\<close> with \<open>0 \<le> a \<le> b\<close> never raises: it is cut at the end of \<open>s\<close>.
\<close>

definition slice :: "string \<Rightarrow> nat \<Rightarrow> nat \<Rightarrow> string" where
  "slice s a b = take (b - a) (drop a s)"

definition extract_datetime :: "string \<Rightarrow> py_error + datetime" where
  "extract_datetime filename =
     (let datetime_str = str_replace ''.mseed'' [] filename in
      py_bind (py_int (slice datetime_str 0 2)) (\<lambda>month.
      py_bind (py_int (slice datetime_str 2 4)) (\<lambda>day.
      py_bind (py_int (slice datetime_str 4 6)) (\<lambda>hour.
      py_bind (py_int (slice datetime_str 6 8)) (\<lambda>minute.
        datetime_new 2024 month day hour minute)))))"

text \<open>
  \<^verbatim>\<open>
  predictions_df['base_timestamp'] = predictions_df['file'].apply(
      lambda x: extract_datetime(x).timestamp())
  predictions_df['lec_p'] = predictions_df['base_timestamp'] + predictions_df['predicted_time']
  result_df = pd.DataFrame()
  result_df['file'] = predictions_df['file'].str.replace('.mseed','')
  result_df['lec_p'] = predictions_df['lec_p']
  \<close>
  \<open>datetime.timestamp()\<close> of a datetime without time zone reads it in the local time
  zone of the machine; that conversion is the parameter \<open>timestamp\<close>. An exception
  inside \<open>apply\<close> ends the whole cell: there is no handler. A row of \<open>result_df\<close> is
  the pair of its \<open>file\<close> and \<open>lec_p\<close> columns.
\<close>

record file_row =
  "file" :: string

record prediction_row = file_row +
  predicted_time :: real

fun apply_base_timestamp ::
  "(datetime \<Rightarrow> real) \<Rightarrow> string list \<Rightarrow> py_error + real list" where
  "apply_base_timestamp timestamp [] = Inr []"
| "apply_base_timestamp timestamp (x # xs) =
     (case extract_datetime x of Inl e \<Rightarrow> Inl e
      | Inr dt \<Rightarrow>
         (case apply_base_timestamp timestamp xs of Inl e \<Rightarrow> Inl e
          | Inr rest \<Rightarrow> Inr (timestamp dt # rest)))"

definition convert_to_unix_timestamps ::
  "(datetime \<Rightarrow> real) \<Rightarrow> prediction_row list \<Rightarrow> py_error + (string \<times> real) list" where
  "convert_to_unix_timestamps timestamp predictions_df =
     (case apply_base_timestamp timestamp (map file predictions_df) of Inl e \<Rightarrow> Inl e
      | Inr base_timestamp \<Rightarrow>
          (let lec_p = map2 (\<lambda>b r. b + predicted_time r) base_timestamp predictions_df
           in Inr (zip (map (\<lambda>r. str_replace ''.mseed'' [] (file r)) predictions_df) lec_p)))"

text \<open>
  The reconstruction as the specification words it: the reference year is an argument
  of the date parsing, and the absolute timestamp is the epoch seconds of the parsed
  window start plus the predicted relative time.
\<close>

definition spec_extract_datetime :: "int \<Rightarrow> string \<Rightarrow> py_error + datetime" where
  "spec_extract_datetime reference_year filename =
     (let datetime_str = str_replace ''.mseed'' [] filename in
      py_bind (py_int (slice datetime_str 0 2)) (\<lambda>month.
      py_bind (py_int (slice datetime_str 2 4)) (\<lambda>day.
      py_bind (py_int (slice datetime_str 4 6)) (\<lambda>hour.
      py_bind (py_int (slice datetime_str 6 8)) (\<lambda>minute.
        datetime_new reference_year month day hour minute)))))"

definition spec_absolute_timestamp ::
  "(datetime \<Rightarrow> real) \<Rightarrow> int \<Rightarrow> string \<Rightarrow> real \<Rightarrow> py_error + real" where
  "spec_absolute_timestamp timestamp reference_year filename predicted =
     (case spec_extract_datetime reference_year filename of Inl e \<Rightarrow> Inl e
      | Inr dt \<Rightarrow> Inr (timestamp dt + predicted))"

text \<open>
  One instance of \<open>timestamp\<close>: a machine whose local time is a fixed number of seconds
  east of UTC (\<open>-18000\<close> for UTC-5). Days are counted as \<open>datetime.toordinal\<close> does;
  day 719163 is 1 January 1970.
\<close>

definition days_before_year :: "int \<Rightarrow> int" where
  "days_before_year y = (y - 1) * 365 + (y - 1) div 4 - (y - 1) div 100 + (y - 1) div 400"

definition days_before_month :: "int \<Rightarrow> int \<Rightarrow> int" where
  "days_before_month y m = sum_list (map (days_in_month y) [1..m - 1])"

definition toordinal :: "datetime \<Rightarrow> int" where
  "toordinal dt = days_before_year (year dt) + days_before_month (year dt) (month dt) + day dt"

definition timestamp_fixed_offset :: "int \<Rightarrow> datetime \<Rightarrow> real" where
  "timestamp_fixed_offset utcoffset dt =
     real_of_int ((toordinal dt - 719163) * 86400 + hour dt * 3600 + minute dt * 60
                  - utcoffset)"

section \<open>Wavelet feature extraction (notebook 05)\<close>

subsection \<open>Floating-point values\<close>

text \<open>
  A feature is a NumPy float: a finite number, an infinity or NaN. Waveform samples and
  wavelet coefficients are finite, so they are reals; rounding is not modelled. NumPy
  does not raise on a division by zero, it yields an infinity or NaN (with a warning).
\<close>

datatype npfloat = Fin real | PInf | NInf | NaN

fun np_add :: "npfloat \<Rightarrow> npfloat \<Rightarrow> npfloat" where
  "np_add (Fin a) (Fin b) = Fin (a + b)"
| "np_add NaN _ = NaN"
| "np_add _ NaN = NaN"
| "np_add PInf NInf = NaN"
| "np_add NInf PInf = NaN"
| "np_add PInf _ = PInf"
| "np_add _ PInf = PInf"
| "np_add NInf _ = NInf"
| "np_add _ NInf = NInf"

definition np_sum :: "npfloat list \<Rightarrow> npfloat" where
  "np_sum xs = foldl np_add (Fin 0) xs"

definition np_divide :: "real \<Rightarrow> real \<Rightarrow> npfloat" where
  "np_divide a b =
     (if b \<noteq> 0 then Fin (a / b)
      else if a = 0 then NaN else if a > 0 then PInf else NInf)"

subsection \<open>The statistics of one band\<close>

text \<open>
  \<open>np.mean\<close>, \<open>np.std\<close> (population standard deviation), \<open>np.max\<close>, \<open>np.min\<close>,
  \<open>np.percentile\<close> (linear interpolation between the two nearest order statistics) and
  \<open>np.median\<close>, on a non-empty array of finite values.
\<close>

definition np_mean :: "real list \<Rightarrow> real" where
  "np_mean a = sum_list a / real (length a)"

definition moment :: "real list \<Rightarrow> nat \<Rightarrow> real" where
  "moment a k = (let mean = np_mean a in np_mean (map (\<lambda>x. (x - mean) ^ k) a))"

definition np_std :: "real list \<Rightarrow> real" where
  "np_std a = sqrt (moment a 2)"

definition np_percentile :: "real list \<Rightarrow> real \<Rightarrow> real" where
  "np_percentile a q =
     (let s = sort a; n = length a;
          virtual_index = real (n - 1) * (q / 100);
          previous_index = nat \<lfloor>virtual_index\<rfloor>;
          next_index = min (previous_index + 1) (n - 1);
          gamma = virtual_index - real previous_index
      in s ! previous_index + gamma * (s ! next_index - s ! previous_index))"

definition np_median :: "real list \<Rightarrow> real" where
  "np_median a =
     (let s = sort a; n = length a
      in if odd n then s ! (n div 2) else (s ! (n div 2 - 1) + s ! (n div 2)) / 2)"

definition np_max :: "real list \<Rightarrow> real" where
  "np_max a = fold max (tl a) (hd a)"

definition np_min :: "real list \<Rightarrow> real" where
  "np_min a = fold min (tl a) (hd a)"

definition np_abs :: "real list \<Rightarrow> real list" where
  "np_abs a = map abs a"

text \<open>
  \<open>scipy.stats.skew\<close> and \<open>scipy.stats.kurtosis\<close> (biased, Fisher's definition) of the
  SciPy releases that run on the notebook's Python 3.12: the ratio of central moments,
  and NaN where the second moment is negligible against the mean
  (\<open>np.where(zero, np.nan, m3 / m2**1.5)\<close>). \<open>finfo_resolution\<close> is
  \<open>np.finfo(np.float64).resolution\<close>.
\<close>

definition finfo_resolution :: real where
  "finfo_resolution = 1 / 10 ^ 15"

definition skew :: "real list \<Rightarrow> npfloat" where
  "skew a =
     (let mean = np_mean a; m2 = moment a 2; m3 = moment a 3;
          zero = (m2 \<le> (finfo_resolution * mean)\<^sup>2)
      in if zero then NaN else Fin (m3 / m2 powr (3 / 2)))"

definition kurtosis :: "real list \<Rightarrow> npfloat" where
  "kurtosis a =
     (let mean = np_mean a; m2 = moment a 2; m4 = moment a 4;
          zero = (m2 \<le> (finfo_resolution * mean)\<^sup>2)
      in np_add (if zero then NaN else Fin (m4 / m2\<^sup>2)) (Fin (- 3)))"

text \<open>
  \<open>scipy.stats.entropy(pk)\<close>: \<open>pk\<close> is divided by its sum, then
  \<open>special.entr\<close> (\<open>-p log p\<close>, 0 at 0) is summed:
  \<^verbatim>\<open>
  pk = 1.0*pk / np.sum(pk, axis=axis, keepdims=True)
  vec = special.entr(pk)
  S = np.sum(vec, axis=axis)
  \<close>
\<close>

fun entr :: "npfloat \<Rightarrow> npfloat" where
  "entr (Fin p) = (if p > 0 then Fin (- p * ln p) else if p = 0 then Fin 0 else NInf)"
| "entr PInf = NInf"
| "entr NInf = NInf"
| "entr NaN = NaN"

definition entropy :: "real list \<Rightarrow> npfloat" where
  "entropy pk =
     (let total = sum_list pk;
          pk' = map (\<lambda>p. np_divide p total) pk;
          vec = map entr pk'
      in np_sum vec)"

subsection \<open>\<open>pywt.wavedec\<close>\<close>

text \<open>
  A wavelet is its pair of decomposition filters. \<open>db4\<close> holds the taps of
  \<open>pywt.Wavelet('db4')\<close>, \<open>dec_lo\<close> and \<open>dec_hi\<close>, each written with the digits Python
  prints for the double; the properties proved below use only that both filters have
  8 taps.
\<close>

record wavelet =
  dec_lo :: "real list"
  dec_hi :: "real list"

definition db4 :: wavelet where
  "db4 = \<lparr>dec_lo = [- 0.010597401785069032, 0.0328830116668852, 0.030841381835560764,
                     - 0.18703481171909309, - 0.027983769416859854, 0.6308807679298589,
                     0.7148465705529157, 0.2303778133088965],
           dec_hi = [- 0.2303778133088965, 0.7148465705529157, - 0.6308807679298589,
                     - 0.027983769416859854, 0.18703481171909309, 0.030841381835560764,
                     - 0.0328830116668852, - 0.010597401785069032]\<rparr>"

text \<open>
  One level, \<open>pywt.dwt(data, wavelet)\<close> in the default mode \<open>symmetric\<close>: the signal is
  mirrored at both ends (\<open>... x1 x0 | x0 x1 ... xn-1 | xn-1 xn-2 ...\<close>), convolved with
  each filter, and every second value is kept, starting at index 1. The result has
  \<open>(len(data) + len(filter) - 1) // 2\<close> coefficients. An empty input raises
  \<open>ValueError\<close>.
\<close>

definition dwt_coeff_len :: "nat \<Rightarrow> nat \<Rightarrow> nat" where
  "dwt_coeff_len data_len filter_len = (data_len + filter_len - 1) div 2"

definition symmetric_extension :: "real list \<Rightarrow> int \<Rightarrow> real" where
  "symmetric_extension x k =
     (let n = int (length x); m = k mod (2 * n)
      in if m < n then x ! nat m else x ! nat (2 * n - 1 - m))"

definition downsampling_convolution :: "real list \<Rightarrow> real list \<Rightarrow> real list" where
  "downsampling_convolution x filter_taps =
     map (\<lambda>i. \<Sum>j \<leftarrow> [0..<length filter_taps].
                 filter_taps ! j * symmetric_extension x (2 * int i + 1 - int j))
         [0..<dwt_coeff_len (length x) (length filter_taps)]"

definition dwt :: "real list \<Rightarrow> wavelet \<Rightarrow> py_error + (real list \<times> real list)" where
  "dwt data w =
     (if length data < 1 then Inl ValueError
      else Inr (downsampling_convolution data (dec_lo w),
                downsampling_convolution data (dec_hi w)))"

text \<open>
  \<^verbatim>\<open>
  def wavedec(data, wavelet, mode='symmetric', level=None, axis=-1):
      ...
      level = _check_level(axes_shape, wavelet.dec_len, level)
      coeffs_list = []
      a = data
      for i in range(level):
          a, d = dwt(a, wavelet, mode, axis)
          coeffs_list.append(d)
      coeffs_list.append(a)
      coeffs_list.reverse()
      return coeffs_list
  \<close>
  \<open>_check_level\<close> raises \<open>ValueError\<close> on a negative level; a level above the useful
  maximum for the signal length only gives a warning.
\<close>

fun wavedec_loop ::
  "nat \<Rightarrow> wavelet \<Rightarrow> real list \<Rightarrow> real list list \<Rightarrow> py_error + real list list" where
  "wavedec_loop 0 w a coeffs_list = Inr (rev (coeffs_list @ [a]))"
| "wavedec_loop (Suc n) w a coeffs_list =
     py_bind (dwt a w) (\<lambda>(a', d). wavedec_loop n w a' (coeffs_list @ [d]))"

definition wavedec :: "real list \<Rightarrow> wavelet \<Rightarrow> int \<Rightarrow> py_error + real list list" where
  "wavedec data w level =
     (if level < 0 then Inl ValueError else wavedec_loop (nat level) w data [])"

subsection \<open>\<open>extract_wavelet_features\<close>\<close>

text \<open>
  \<^verbatim>\<open>
  def extract_wavelet_features(signal, wavelet='db4', level=4):
      coeffs = pywt.wavedec(signal, wavelet, level=level)
      features = []
      for coef in coeffs:
          features.extend([
              np.mean(coef), np.std(coef), stats.skew(coef), stats.kurtosis(coef),
              np.percentile(coef, 75), np.percentile(coef, 25),
              np.max(coef), np.min(coef),
              np.sum(np.abs(coef)), np.sqrt(np.sum(coef**2)),
              stats.entropy(np.abs(coef)), np.median(np.abs(coef))
          ])
      return np.array(features)
  \<close>
  On an empty band \<open>np.max\<close> raises \<open>ValueError\<close>; \<open>wavedec\<close> never returns one.
\<close>

definition band_statistics :: "real list \<Rightarrow> py_error + npfloat list" where
  "band_statistics coef =
     (if coef = [] then Inl ValueError
      else Inr [Fin (np_mean coef),
                Fin (np_std coef),
                skew coef,
                kurtosis coef,
                Fin (np_percentile coef 75),
                Fin (np_percentile coef 25),
                Fin (np_max coef),
                Fin (np_min coef),
                Fin (sum_list (np_abs coef)),
                Fin (sqrt (sum_list (map (\<lambda>x. x\<^sup>2) coef))),
                entropy (np_abs coef),
                Fin (np_median (np_abs coef))])"

fun features_loop :: "real list list \<Rightarrow> npfloat list \<Rightarrow> py_error + npfloat list" where
  "features_loop [] features = Inr features"
| "features_loop (coef # coeffs) features =
     py_bind (band_statistics coef) (\<lambda>stats. features_loop coeffs (features @ stats))"

definition extract_wavelet_features ::
  "real list \<Rightarrow> wavelet \<Rightarrow> int \<Rightarrow> py_error + npfloat list" where
  "extract_wavelet_features signal w level =
     py_bind (wavedec signal w level) (\<lambda>coeffs. features_loop coeffs [])"

text \<open>
  For the proofs about constant bands: a non-empty band of zeros, and the twelve
  statistics the code computes for it.
\<close>

definition zero_band :: "real list \<Rightarrow> bool" where
  "zero_band c = (c \<noteq> [] \<and> c = replicate (length c) 0)"

definition zero_band_statistics :: "npfloat list" where
  "zero_band_statistics =
     [Fin 0, Fin 0, NaN, NaN, Fin 0, Fin 0, Fin 0, Fin 0, Fin 0, Fin 0, NaN, Fin 0]"

section \<open>Batch feature extraction (notebook 05)\<close>

text \<open>
  The waveform reader is ObsPy's \<open>read(path)\<close>: it returns a stream, a list of traces, or
  raises. It is a parameter of the model, a function from paths to what \<open>read\<close> gives
  there. Of a trace the notebooks use the samples (\<open>st[0].data\<close>) and the start of the
  window in epoch seconds (\<open>st[0].stats.starttime.timestamp\<close>). \<open>st[0]\<close> on an empty
  stream raises \<open>IndexError\<close>.
\<close>

record trace =
  data :: "real list"
  starttime :: real

type_synonym reader = "string \<Rightarrow> py_error + trace list"

definition first_trace :: "reader \<Rightarrow> string \<Rightarrow> py_error + trace" where
  "first_trace read file_path =
     py_bind (read file_path) (\<lambda>st. case st of [] \<Rightarrow> Inl IndexError | tr # _ \<Rightarrow> Inr tr)"

text \<open>
  \<^verbatim>\<open>
  def process_seismic_files(data_path, arrival_times_csv):
      arrivals_df = pd.read_csv(arrival_times_csv)
      features_list = []
      arrival_times = []
      file_names = []
      for _, row in tqdm(arrivals_df.iterrows(), total=len(arrivals_df)):
          file_path = os.path.join(data_path, row['file'])
          try:
              st = read(file_path)
              signal = st[0].data
              features = extract_wavelet_features(signal)
              features_list.append(features)
              arrival_times.append(row['arrival_time'])
              file_names.append(row['file'])
          except Exception as e:
              print(f'Error processing {file_path}: {str(e)}')
              continue
      return np.array(features_list), np.array(arrival_times), file_names
  \<close>
  The label table is the list of its rows, each with the columns \<open>file\<close> and
  \<open>arrival_time\<close>. \<open>try_extract\<close> is the part of the \<open>try\<close> block that can raise; the three
  \<open>append\<close> calls after it cannot. The handler prints a line and goes on to the next
  row; the line is not part of what the function returns and is left out. \<open>np.array\<close>
  of the feature vectors raises \<open>ValueError\<close> when they differ in length.
\<close>

record arrival_row = file_row +
  arrival_time :: real

definition try_extract :: "reader \<Rightarrow> string \<Rightarrow> arrival_row \<Rightarrow> py_error + npfloat list" where
  "try_extract read data_path row =
     (let file_path = os_path_join data_path (file row) in
      py_bind (first_trace read file_path) (\<lambda>tr.
        let signal = data tr in extract_wavelet_features signal db4 4))"

fun process_rows ::
  "reader \<Rightarrow> string \<Rightarrow> arrival_row list
   \<Rightarrow> npfloat list list \<times> real list \<times> string list
   \<Rightarrow> npfloat list list \<times> real list \<times> string list" where
  "process_rows read data_path [] acc = acc"
| "process_rows read data_path (row # rows) (features_list, arrival_times, file_names) =
     (case try_extract read data_path row of
        Inr features \<Rightarrow>
          process_rows read data_path rows
            (features_list @ [features], arrival_times @ [arrival_time row],
             file_names @ [file row])
      | Inl e \<Rightarrow> process_rows read data_path rows (features_list, arrival_times, file_names))"

definition np_array_2d :: "npfloat list list \<Rightarrow> py_error + npfloat list list" where
  "np_array_2d rows =
     (if list_all (\<lambda>r. length r = length (hd rows)) rows then Inr rows else Inl ValueError)"

definition process_seismic_files ::
  "reader \<Rightarrow> string \<Rightarrow> arrival_row list
   \<Rightarrow> py_error + (npfloat list list \<times> real list \<times> string list)" where
  "process_seismic_files read data_path arrivals_df =
     (case process_rows read data_path arrivals_df ([], [], []) of
        (features_list, arrival_times, file_names) \<Rightarrow>
          py_bind (np_array_2d features_list) (\<lambda>X. Inr (X, arrival_times, file_names)))"

text \<open>A row is processed when its \<open>try\<close> block ends without an exception.\<close>

definition processed :: "reader \<Rightarrow> string \<Rightarrow> arrival_row \<Rightarrow> bool" where
  "processed read data_path row = (\<not> isl (try_extract read data_path row))"

text \<open>
  A small corpus for the examples: two readable files of zeros, one file that reads as
  an empty stream, and no other file.
\<close>

definition example_reader :: reader where
  "example_reader file_path =
     (if file_path = ''/data/01011426.mseed''
        then Inr [\<lparr>data = [0, 0, 0, 0], starttime = 1704137160\<rparr>]
      else if file_path = ''/data/01020023.mseed''
        then Inr [\<lparr>data = replicate 6 0, starttime = 1704173000\<rparr>]
      else if file_path = ''/data/02020202.mseed'' then Inr []
      else Inl OSError)"

definition example_arrivals :: "arrival_row list" where
  "example_arrivals =
     [\<lparr>file = ''01011426.mseed'', arrival_time = 30\<rparr>,
      \<lparr>file = ''09090909.mseed'', arrival_time = 10\<rparr>,
      \<lparr>file = ''02020202.mseed'', arrival_time = 20\<rparr>,
      \<lparr>file = ''01020023.mseed'', arrival_time = 31\<rparr>]"

section \<open>Arrival-time matching (notebook 05)\<close>

text \<open>
  The format \<open>f"{file_id:08d}"\<close>: the decimal digits of the integer, after the sign if
  it is negative, padded with zeros between sign and digits to 8 characters.
\<close>

fun decimal_digits :: "nat \<Rightarrow> string" where
  "decimal_digits n =
     (if n < 10 then [''0123456789'' ! n]
      else decimal_digits (n div 10) @ [''0123456789'' ! (n mod 10)])"

declare decimal_digits.simps [simp del]

definition format_08d :: "int \<Rightarrow> string" where
  "format_08d i =
     (let sign = (if i < 0 then ''-'' else []);
          digits = decimal_digits (nat \<bar>i\<bar>)
      in sign @ replicate (8 - length sign - length digits) (CHR ''0'') @ digits)"

definition mseed_file_name :: "int \<Rightarrow> string" where
  "mseed_file_name file_id = format_08d file_id @ ''.mseed''"

text \<open>
  \<^verbatim>\<open>
  def match_arrival_times(directory_path, csv_path, output_path):
      df = pd.read_csv(csv_path)
      mseed_files = []
      for file in os.listdir(directory_path):
          if file.endswith('.mseed'):
              file_number = int(file.replace('.mseed', ''))
              mseed_files.append(file_number)
      matched_df = df[df['archivo'].isin(mseed_files)].copy()
      arrival_times = []
      filenames = []
      for _, row in tqdm(matched_df.iterrows(), desc='Procesando archivos'):
          file_id = row['archivo']
          mseed_file = f"{file_id:08d}.mseed"
          file_path = os.path.join(directory_path, mseed_file)
          try:
              st = read(file_path)
              absolute_p_time = row['lec_p']
              relative_p_time = absolute_p_time - st[0].stats.starttime.timestamp
              arrival_times.append(relative_p_time)
              filenames.append(mseed_file)
          except Exception as e:
              print(f"Error procesando {mseed_file}: {str(e)}")
              continue
      result_df = pd.DataFrame({'file': filenames, 'arrival_time': arrival_times})
      result_df.to_csv(output_path, index=False)
      return result_df
  \<close>
  A row of the pick table has the columns \<open>archivo\<close> (the integer file id) and \<open>lec_p\<close>
  (the absolute pick time); \<open>listdir\<close> is what \<open>os.listdir\<close> returns for the directory.

  \<open>iterrows()\<close> hands out each row as one Series, and a Series has one dtype: the common
  dtype of all columns of the table. That dtype is \<open>float64\<close> when every column is
  numeric and one of them holds floats, \<open>int64\<close> when every column holds integers, and
  \<open>object\<close> when some column is not numeric (text, for instance). In a \<open>float64\<close> row
  the file id comes back as a float, otherwise as the integer it is. The format code
  \<open>d\<close> takes an integer and raises \<open>ValueError\<close> on a float. The pick table is therefore
  its rows together with that common dtype; the columns besides \<open>archivo\<close> and \<open>lec_p\<close>
  are not read.

  Two statements stand outside the \<open>try\<close> block and end the function when they raise:
  \<open>int(...)\<close> in the first loop, on a name ending in \<open>.mseed\<close> that is not a number, and
  the formatting of \<open>file_id\<close> in the second. The model returns \<open>result_df\<close> together
  with the file names of the lines \<open>Error procesando ...\<close> that were printed.
\<close>

record pick_row =
  archivo :: int
  lec_p :: real

datatype row_dtype = Int64 | Float64 | Object

record pick_table =
  values_dtype :: row_dtype
  table_rows :: "pick_row list"

datatype py_number = PyInt int | PyFloat real

definition iterrows_archivo :: "row_dtype \<Rightarrow> pick_row \<Rightarrow> py_number" where
  "iterrows_archivo dtype row =
     (if dtype = Float64 then PyFloat (real_of_int (archivo row)) else PyInt (archivo row))"

fun format_number_08d :: "py_number \<Rightarrow> py_error + string" where
  "format_number_08d (PyInt i) = Inr (format_08d i)"
| "format_number_08d (PyFloat x) = Inl ValueError"

fun listdir_numbers :: "string list \<Rightarrow> int list \<Rightarrow> py_error + int list" where
  "listdir_numbers [] mseed_files = Inr mseed_files"
| "listdir_numbers (name # names) mseed_files =
     (if endswith name ''.mseed'' then
        py_bind (py_int (str_replace ''.mseed'' [] name)) (\<lambda>file_number.
          listdir_numbers names (mseed_files @ [file_number]))
      else listdir_numbers names mseed_files)"

fun match_rows ::
  "reader \<Rightarrow> string \<Rightarrow> row_dtype \<Rightarrow> pick_row list
   \<Rightarrow> real list \<times> string list \<times> string list
   \<Rightarrow> py_error + (real list \<times> string list \<times> string list)" where
  "match_rows read directory_path dtype [] acc = Inr acc"
| "match_rows read directory_path dtype (row # rows) (arrival_times, filenames, printed) =
     (let file_id = iterrows_archivo dtype row in
      case format_number_08d file_id of
        Inl e \<Rightarrow> Inl e
      | Inr formatted \<Rightarrow>
          (let mseed_file = formatted @ ''.mseed'';
               file_path = os_path_join directory_path mseed_file
           in case first_trace read file_path of
                Inr tr \<Rightarrow>
                  (let absolute_p_time = lec_p row;
                       relative_p_time = absolute_p_time - starttime tr
                   in match_rows read directory_path dtype rows
                        (arrival_times @ [relative_p_time], filenames @ [mseed_file],
                         printed))
              | Inl e \<Rightarrow>
                  match_rows read directory_path dtype rows
                    (arrival_times, filenames, printed @ [mseed_file])))"

definition match_arrival_times ::
  "reader \<Rightarrow> string list \<Rightarrow> string \<Rightarrow> pick_table
   \<Rightarrow> py_error + (arrival_row list \<times> string list)" where
  "match_arrival_times read listdir directory_path df =
     py_bind (listdir_numbers listdir []) (\<lambda>mseed_files.
       let matched_df = filter (\<lambda>row. archivo row \<in> set mseed_files) (table_rows df) in
       py_bind (match_rows read directory_path (values_dtype df) matched_df ([], [], []))
         (\<lambda>(arrival_times, filenames, printed).
            Inr (map2 (\<lambda>f t. \<lparr>file = f, arrival_time = t\<rparr>) filenames arrival_times,
                 printed)))"

text \<open>
  The name \<open>f"{file_id:08d}.mseed"\<close> of an integer file id, the window start the loop
  reads for a row (\<open>st[0].stats.starttime.timestamp\<close> of the file of that name), and
  whether that read succeeds.
\<close>

definition window_start :: "reader \<Rightarrow> string \<Rightarrow> pick_row \<Rightarrow> py_error + real" where
  "window_start read directory_path row =
     py_bind (first_trace read (os_path_join directory_path (mseed_file_name (archivo row))))
       (\<lambda>tr. Inr (starttime tr))"

definition readable :: "reader \<Rightarrow> string \<Rightarrow> pick_row \<Rightarrow> bool" where
  "readable read directory_path row = (\<not> isl (window_start read directory_path row))"

text \<open>Reading a formatted file id back, to show that the format loses nothing.\<close>

definition digits_to_nat :: "string \<Rightarrow> nat" where
  "digits_to_nat s = foldl (\<lambda>acc c. acc * 10 + digit_value c) 0 s"

definition unformat :: "string \<Rightarrow> int" where
  "unformat s = (if take 1 s = ''-'' then - int (digits_to_nat (drop 1 s))
                 else int (digits_to_nat s))"

text \<open>
  Pick tables for the examples: one with a text column beside the two that are read
  (dtype \<open>object\<close>), and the same rows as a table of these two columns alone (dtype
  \<open>float64\<close>).
\<close>

definition example_picks :: "real \<Rightarrow> pick_row list" where
  "example_picks t =
     [\<lparr>archivo = 1011426, lec_p = t\<rparr>, \<lparr>archivo = 5, lec_p = 1704200000\<rparr>,
      \<lparr>archivo = 7, lec_p = 1704300000\<rparr>]"

definition example_listdir :: "string list" where
  "example_listdir = [''01011426.mseed'', ''notes.txt'', ''7.mseed'']"

section \<open>Train and test split (notebook 03)\<close>

text \<open>
  \<^verbatim>\<open>
  df = pd.DataFrame(files, columns=['filename'])
  df['filename'] = df['filename'].str.replace('.mseed', '')
  train_set, test_set = train_test_split(df, test_size=0.2, random_state=42)
  \<close>
  \<open>train_test_split\<close> of scikit-learn with a fraction as \<open>test_size\<close>: the test set
  takes \<open>ceil(test_size * n_samples)\<close> rows and the training set the others; the call
  raises \<open>ValueError\<close> when the fraction is not inside (0, 1) or the training set would
  be empty. The rows are drawn through the shuffled index list
  \<open>RandomState(42).permutation(n_samples)\<close>, the parameter \<open>permutation\<close>: the test set is
  its first \<open>n_test\<close> indices, the training set the next \<open>n_train\<close>. For the fraction
  0.2 the floating-point product rounds to the same ceiling as the exact one.
\<close>

definition validate_shuffle_split :: "nat \<Rightarrow> real \<Rightarrow> py_error + (nat \<times> nat)" where
  "validate_shuffle_split n_samples test_size =
     (if test_size \<le> 0 \<or> test_size \<ge> 1 then Inl ValueError
      else
        (let n_test = nat \<lceil>test_size * real n_samples\<rceil>;
             n_train = n_samples - n_test
         in if n_train = 0 then Inl ValueError else Inr (n_train, n_test)))"

definition train_test_split ::
  "'a list \<Rightarrow> real \<Rightarrow> (nat \<Rightarrow> nat list) \<Rightarrow> py_error + ('a list \<times> 'a list)" where
  "train_test_split df test_size permutation =
     (let n_samples = length df in
      py_bind (validate_shuffle_split n_samples test_size) (\<lambda>(n_train, n_test).
        let perm = permutation n_samples;
            ind_test = take n_test perm;
            ind_train = take n_train (drop n_test perm)
        in Inr (map (\<lambda>i. df ! i) ind_train, map (\<lambda>i. df ! i) ind_test)))"

definition source_identities :: "string list \<Rightarrow> string list" where
  "source_identities files = map (str_replace ''.mseed'' []) files"

definition split_dataset ::
  "string list \<Rightarrow> (nat \<Rightarrow> nat list) \<Rightarrow> py_error + (string list \<times> string list)" where
  "split_dataset files permutation =
     (let df = source_identities files in train_test_split df (2 / 10) permutation)"

text \<open>What \<open>permutation\<close> returns for \<open>n\<close>: every index below \<open>n\<close> exactly once.\<close>

definition is_permutation :: "nat \<Rightarrow> nat list \<Rightarrow> bool" where
  "is_permutation n p = (distinct p \<and> set p = {0..<n})"

definition example_permutation :: "nat \<Rightarrow> nat list" where
  "example_permutation n = rev [0..<n]"

section \<open>Properties of the length-fixing step\<close>

lemma length_pad_or_trim: "length (pad_or_trim signal L) = L"
  by (simp add: pad_or_trim_def np_pad_constant_def Let_def)

text \<open>
  Claim C6. For every input amplitude sequence the length-fixing step returns exactly
  8000 samples: an input longer than 8000 is cut to its first 8000 samples, a shorter
  input is followed by zeros up to 8000 samples, and an input of exactly 8000 samples is
  returned unchanged.
\<close>

theorem pad_or_trim_fixes_length:
  "length (pad_or_trim x default_target_length) = 8000
   \<and> (length x > 8000 \<longrightarrow> pad_or_trim x default_target_length = take 8000 x)
   \<and> (length x < 8000 \<longrightarrow>
        pad_or_trim x default_target_length = x @ replicate (8000 - length x) 0)
   \<and> (length x = 8000 \<longrightarrow> pad_or_trim x default_target_length = x)"
  by (simp add: pad_or_trim_def np_pad_constant_def Let_def default_target_length_def)

theorem pad_or_trim_fixes_length_witness:
  "length (pad_or_trim [1, 2, 3] default_target_length) = 8000
   \<and> length [1, 2, 3 :: real] < 8000
   \<and> pad_or_trim [1, 2, 3] default_target_length
       = [1, 2, 3] @ replicate (8000 - length [1, 2, 3 :: real]) 0"
  using pad_or_trim_fixes_length [of "[1, 2, 3]"] by simp

text \<open>
  Claim C7. The length-fixing step is idempotent: applying it to its own result gives
  that result again.
\<close>

theorem pad_or_trim_idempotent:
  "pad_or_trim (pad_or_trim x default_target_length) default_target_length
   = pad_or_trim x default_target_length"
proof -
  have "length (pad_or_trim x default_target_length) = default_target_length"
    by (rule length_pad_or_trim)
  then show ?thesis
    by (simp add: pad_or_trim_def [of "pad_or_trim x default_target_length"])
qed

section \<open>Properties of the timestamp reconstruction\<close>

lemma apply_base_timestamp_Inr:
  "apply_base_timestamp ts xs = Inr bs \<Longrightarrow>
   length bs = length xs \<and>
   (\<forall>i < length xs. \<exists>dt. extract_datetime (xs ! i) = Inr dt \<and> bs ! i = ts dt)"
proof (induction xs arbitrary: bs)
  case Nil
  then show ?case by simp
next
  case (Cons x xs)
  then obtain dt rest where dt: "extract_datetime x = Inr dt"
    and rest: "apply_base_timestamp ts xs = Inr rest" and bs: "bs = ts dt # rest"
    by (auto split: sum.splits)
  from Cons.IH [OF rest] have len: "length rest = length xs"
    and nth: "\<And>i. i < length xs \<Longrightarrow> \<exists>dt. extract_datetime (xs ! i) = Inr dt \<and> rest ! i = ts dt"
    by auto
  show ?case
  proof (intro conjI allI impI)
    show "length bs = length (x # xs)"
      using bs len by simp
  next
    fix i
    assume "i < length (x # xs)"
    then show "\<exists>dt. extract_datetime ((x # xs) ! i) = Inr dt \<and> bs ! i = ts dt"
      using dt bs nth by (cases i) auto
  qed
qed

lemma apply_base_timestamp_total:
  "(\<forall>x \<in> set xs. \<exists>dt. extract_datetime x = Inr dt) \<Longrightarrow>
   \<exists>bs. apply_base_timestamp ts xs = Inr bs"
  by (induction xs) auto

lemma extract_datetime_is_2024: "extract_datetime f = spec_extract_datetime 2024 f"
  by (simp add: extract_datetime_def spec_extract_datetime_def)

text \<open>
  Claim C9, as the code has it. The absolute arrival timestamp of every prediction row
  is the epoch seconds of the window start parsed from the file name plus the predicted
  relative time, and the window start is always read in the year 2024: the year is a
  constant of \<open>extract_datetime\<close>, not an input. Whenever every file name parses to a
  date of 2024, the conversion returns one output row per prediction row, in order.
\<close>

theorem convert_to_unix_timestamps_year_2024:
  assumes "\<forall>r \<in> set predictions_df. \<exists>dt. spec_extract_datetime 2024 (file r) = Inr dt"
  shows "\<exists>result_df. convert_to_unix_timestamps timestamp predictions_df = Inr result_df
           \<and> length result_df = length predictions_df
           \<and> (\<forall>i < length predictions_df.
                 fst (result_df ! i) = str_replace ''.mseed'' [] (file (predictions_df ! i))
               \<and> spec_absolute_timestamp timestamp 2024 (file (predictions_df ! i))
                      (predicted_time (predictions_df ! i)) = Inr (snd (result_df ! i)))"
proof -
  from assms have "\<forall>x \<in> set (map file predictions_df). \<exists>dt. extract_datetime x = Inr dt"
    by (simp add: extract_datetime_is_2024)
  then obtain bs where bs: "apply_base_timestamp timestamp (map file predictions_df) = Inr bs"
    using apply_base_timestamp_total by blast
  from apply_base_timestamp_Inr [OF bs]
  have len: "length bs = length predictions_df"
    and nth: "\<And>i. i < length predictions_df \<Longrightarrow>
       \<exists>dt. extract_datetime (file (predictions_df ! i)) = Inr dt \<and> bs ! i = timestamp dt"
    by auto
  let ?out = "zip (map (\<lambda>r. str_replace ''.mseed'' [] (file r)) predictions_df)
                  (map2 (\<lambda>b r. b + predicted_time r) bs predictions_df)"
  have conv: "convert_to_unix_timestamps timestamp predictions_df = Inr ?out"
    by (simp add: convert_to_unix_timestamps_def bs)
  have "length ?out = length predictions_df"
    using len by simp
  moreover have "\<forall>i < length predictions_df.
                 fst (?out ! i) = str_replace ''.mseed'' [] (file (predictions_df ! i))
               \<and> spec_absolute_timestamp timestamp 2024 (file (predictions_df ! i))
                      (predicted_time (predictions_df ! i)) = Inr (snd (?out ! i))"
  proof (intro allI impI)
    fix i
    assume i: "i < length predictions_df"
    from nth [OF i] obtain dt where dt: "extract_datetime (file (predictions_df ! i)) = Inr dt"
      and b: "bs ! i = timestamp dt" by blast
    show "fst (?out ! i) = str_replace ''.mseed'' [] (file (predictions_df ! i))
               \<and> spec_absolute_timestamp timestamp 2024 (file (predictions_df ! i))
                      (predicted_time (predictions_df ! i)) = Inr (snd (?out ! i))"
      using i len dt b
      by (simp add: spec_absolute_timestamp_def extract_datetime_is_2024 [symmetric])
  qed
  ultimately show ?thesis
    using conv by blast
qed

theorem convert_to_unix_timestamps_year_2024_witness:
  "spec_extract_datetime 2024 ''01011426.mseed''
     = Inr \<lparr>year = 2024, month = 1, day = 1, hour = 14, minute = 26\<rparr>
   \<and> (\<exists>result_df.
         convert_to_unix_timestamps (timestamp_fixed_offset (- 18000))
           [\<lparr>file = ''01011426.mseed'', predicted_time = 1 / 2\<rparr>] = Inr result_df
       \<and> length result_df = 1
       \<and> fst (result_df ! 0) = ''01011426''
       \<and> spec_absolute_timestamp (timestamp_fixed_offset (- 18000)) 2024 ''01011426.mseed'' (1 / 2)
           = Inr (snd (result_df ! 0)))"
proof -
  have e: "spec_extract_datetime 2024 ''01011426.mseed''
          = Inr \<lparr>year = 2024, month = 1, day = 1, hour = 14, minute = 26\<rparr>"
    by code_simp
  then have h: "\<forall>r \<in> set [\<lparr>file = ''01011426.mseed'', predicted_time = 1 / 2\<rparr>].
       \<exists>dt. spec_extract_datetime 2024 (file r) = Inr dt"
    by simp
  from convert_to_unix_timestamps_year_2024 [OF h, of "timestamp_fixed_offset (- 18000)"]
  show ?thesis using e by simp
qed

text \<open>
  The claim as the specification states it fails: with the reference year 2025 supplied,
  the specification's reconstruction of file \<open>01011426.mseed\<close> lies in 2025, while the
  code's output for the same row lies in 2024.
\<close>

theorem reference_year_is_constant_counterexample:
  "convert_to_unix_timestamps (timestamp_fixed_offset (- 18000))
     [\<lparr>file = ''01011426.mseed'', predicted_time = 1 / 2\<rparr>]
     = Inr [(''01011426'', 1704137160 + 1 / 2)]
   \<and> spec_absolute_timestamp (timestamp_fixed_offset (- 18000)) 2025 ''01011426.mseed'' (1 / 2)
     = Inr (1735759560 + 1 / 2)
   \<and> (1704137160 + 1 / 2 :: real) \<noteq> 1735759560 + 1 / 2"
  by code_simp

section \<open>Properties of the wavelet feature extraction\<close>

lemma length_downsampling_convolution:
  "length (downsampling_convolution x f) = (length x + length f - 1) div 2"
  by (simp add: downsampling_convolution_def dwt_coeff_len_def)

lemma downsampling_convolution_nonempty:
  "x \<noteq> [] \<Longrightarrow> 2 \<le> length f \<Longrightarrow> downsampling_convolution x f \<noteq> []"
proof -
  assume "x \<noteq> []" and "2 \<le> length f"
  then have "1 \<le> (length x + length f - 1) div 2"
    by (cases x) auto
  then have "length (downsampling_convolution x f) \<noteq> 0"
    by (simp add: length_downsampling_convolution)
  then show ?thesis by auto
qed

lemma wavedec_loop_returns:
  assumes "2 \<le> length (dec_lo w)" and "2 \<le> length (dec_hi w)"
  shows "a \<noteq> [] \<Longrightarrow> \<forall>c \<in> set acc. c \<noteq> [] \<Longrightarrow>
         \<exists>cs. wavedec_loop n w a acc = Inr cs \<and> length cs = length acc + n + 1
              \<and> (\<forall>c \<in> set cs. c \<noteq> [])"
proof (induction n arbitrary: a acc)
  case 0
  then show ?case by simp
next
  case (Suc n)
  let ?a = "downsampling_convolution a (dec_lo w)"
  let ?d = "downsampling_convolution a (dec_hi w)"
  have a': "?a \<noteq> []" and d: "?d \<noteq> []"
    using Suc.prems(1) assms by (simp_all add: downsampling_convolution_nonempty)
  have step: "wavedec_loop (Suc n) w a acc = wavedec_loop n w ?a (acc @ [?d])"
    using Suc.prems(1) by (simp add: dwt_def py_bind_def)
  have "\<forall>c \<in> set (acc @ [?d]). c \<noteq> []"
    using Suc.prems(2) d by simp
  from Suc.IH [OF a' this] show ?case
    unfolding step by simp
qed

lemma band_statistics_length:
  "coef \<noteq> [] \<Longrightarrow> \<exists>stats. band_statistics coef = Inr stats \<and> length stats = 12"
  by (simp add: band_statistics_def)

lemma features_loop_returns:
  "\<forall>c \<in> set coeffs. c \<noteq> [] \<Longrightarrow>
   \<exists>fs. features_loop coeffs features = Inr fs \<and> length fs = length features + 12 * length coeffs"
proof (induction coeffs arbitrary: features)
  case Nil
  then show ?case by simp
next
  case (Cons coef coeffs)
  then obtain stats where st: "band_statistics coef = Inr stats" and len: "length stats = 12"
    using band_statistics_length [of coef] by auto
  from Cons.prems have "\<forall>c \<in> set coeffs. c \<noteq> []" by simp
  from Cons.IH [OF this, of "features @ stats"] obtain fs
    where "features_loop coeffs (features @ stats) = Inr fs"
      and "length fs = length (features @ stats) + 12 * length coeffs"
    by blast
  then show ?case
    using st len by (simp add: py_bind_def)
qed

lemma extract_wavelet_features_length_general:
  assumes "signal \<noteq> []" and "0 \<le> level"
    and "2 \<le> length (dec_lo w)" and "2 \<le> length (dec_hi w)"
  shows "\<exists>fs. extract_wavelet_features signal w level = Inr fs
              \<and> length fs = 12 * (nat level + 1)"
proof -
  from wavedec_loop_returns [OF assms(3,4), of signal "[]" "nat level"] assms(1)
  obtain cs where cs: "wavedec_loop (nat level) w signal [] = Inr cs"
    and len: "length cs = nat level + 1" and ne: "\<forall>c \<in> set cs. c \<noteq> []"
    by auto
  from features_loop_returns [OF ne, of "[]"] obtain fs
    where "features_loop cs [] = Inr fs" and "length fs = 12 * length cs"
    by auto
  then show ?thesis
    using cs len assms(2) by (simp add: extract_wavelet_features_def wavedec_def py_bind_def)
qed

lemma db4_taps: "length (dec_lo db4) = 8" "length (dec_hi db4) = 8"
  by (simp_all add: db4_def)

text \<open>
  Claim C1. For every input waveform of at least one sample, the feature extractor in
  its reference configuration (wavelet db4, 4 levels) returns without raising, and the
  feature vector has exactly \<open>12 * (4 + 1) = 60\<close> entries.
\<close>

theorem extract_wavelet_features_length:
  assumes "1 \<le> length signal"
  shows "\<exists>features. extract_wavelet_features signal db4 4 = Inr features
                   \<and> length features = 60"
proof -
  from assms have "signal \<noteq> []" by auto
  from extract_wavelet_features_length_general [OF this, of 4 db4]
  show ?thesis by (simp add: db4_taps)
qed

theorem extract_wavelet_features_length_witness:
  "1 \<le> length [1 / 2 :: real]
   \<and> (\<exists>features. extract_wavelet_features [1 / 2] db4 4 = Inr features
                  \<and> length features = 60)"
  using extract_wavelet_features_length [of "[1 / 2]"] by simp

subsection \<open>Constant bands\<close>

lemma symmetric_extension_zeros:
  assumes "0 < n"
  shows "symmetric_extension (replicate n 0) k = 0"
proof -
  let ?m = "k mod (2 * int n)"
  have pos: "0 \<le> ?m" and lt: "?m < 2 * int n"
    using assms by simp_all
  show ?thesis
  proof (cases "?m < int n")
    case True
    then have "nat ?m < n" using pos by linarith
    then show ?thesis using True by (simp add: symmetric_extension_def Let_def)
  next
    case False
    then have "nat (2 * int n - 1 - ?m) < n" using lt by linarith
    then show ?thesis using False by (simp add: symmetric_extension_def Let_def)
  qed
qed

lemma downsampling_convolution_zeros:
  assumes "0 < n"
  shows "downsampling_convolution (replicate n 0) f = replicate ((n + length f - 1) div 2) 0"
  by (simp add: downsampling_convolution_def dwt_coeff_len_def
      symmetric_extension_zeros [OF assms] map_replicate_const sum_list_replicate)

lemma zero_band_convolution:
  assumes "zero_band a" and "2 \<le> length f"
  shows "zero_band (downsampling_convolution a f)"
proof -
  from assms(1) obtain n where n: "0 < n" and a: "a = replicate n 0"
    unfolding zero_band_def by (metis length_greater_0_conv)
  have "1 \<le> (n + length f - 1) div 2"
    using n assms(2) by linarith
  then show ?thesis
    unfolding a downsampling_convolution_zeros [OF n] zero_band_def by auto
qed

lemma wavedec_loop_zeros:
  assumes "2 \<le> length (dec_lo w)" and "2 \<le> length (dec_hi w)"
  shows "zero_band a \<Longrightarrow> \<forall>c \<in> set acc. zero_band c \<Longrightarrow>
         \<exists>cs. wavedec_loop n w a acc = Inr cs \<and> length cs = length acc + n + 1
              \<and> (\<forall>c \<in> set cs. zero_band c)"
proof (induction n arbitrary: a acc)
  case 0
  then show ?case by simp
next
  case (Suc n)
  let ?a = "downsampling_convolution a (dec_lo w)"
  let ?d = "downsampling_convolution a (dec_hi w)"
  have a': "zero_band ?a" and d: "zero_band ?d"
    using Suc.prems(1) assms by (simp_all add: zero_band_convolution)
  have "a \<noteq> []" using Suc.prems(1) by (simp add: zero_band_def)
  then have step: "wavedec_loop (Suc n) w a acc = wavedec_loop n w ?a (acc @ [?d])"
    by (simp add: dwt_def py_bind_def)
  have "\<forall>c \<in> set (acc @ [?d]). zero_band c"
    using Suc.prems(2) d by simp
  from Suc.IH [OF a' this] show ?case
    unfolding step by simp
qed

lemma np_mean_zeros: "np_mean (replicate n 0) = 0"
  by (simp add: np_mean_def sum_list_replicate)

lemma moment_zeros: "0 < k \<Longrightarrow> moment (replicate n 0) k = 0"
  by (simp add: moment_def np_mean_zeros np_mean_def sum_list_replicate)

lemma sort_zeros: "sort (replicate n (0::real)) = replicate n 0"
  by (simp add: sorted_sort_id)

lemma np_percentile_zeros:
  assumes "0 < n" and "0 \<le> q" and "q \<le> 100"
  shows "np_percentile (replicate n 0) q = 0"
proof -
  let ?v = "real (n - 1) * (q / 100)"
  have "0 \<le> ?v" using assms by simp
  have "q / 100 \<le> 1" using assms by simp
  then have "?v \<le> real (n - 1) * 1"
    by (intro mult_left_mono) simp_all
  then have "?v \<le> real (n - 1)" by simp
  then have "\<lfloor>?v\<rfloor> \<le> int (n - 1)" by linarith
  then have p: "nat \<lfloor>?v\<rfloor> < n" using assms(1) by linarith
  have q: "min (nat \<lfloor>?v\<rfloor> + 1) (n - 1) < n" using assms(1) by linarith
  show ?thesis
    using p q by (simp add: np_percentile_def Let_def sort_zeros)
qed

lemma np_median_zeros: "0 < n \<Longrightarrow> np_median (replicate n 0) = 0"
  by (simp add: np_median_def Let_def sort_zeros)

lemma fold_max_zeros: "fold max (replicate k (0::real)) 0 = 0"
  by (induction k) simp_all

lemma fold_min_zeros: "fold min (replicate k (0::real)) 0 = 0"
  by (induction k) simp_all

lemma np_max_zeros: "0 < n \<Longrightarrow> np_max (replicate n 0) = 0"
  by (cases n) (simp_all add: np_max_def fold_max_zeros del: fold_replicate)

lemma np_min_zeros: "0 < n \<Longrightarrow> np_min (replicate n 0) = 0"
  by (cases n) (simp_all add: np_min_def fold_min_zeros del: fold_replicate)

lemma foldl_np_add_NaN: "foldl np_add NaN xs = NaN"
  by (induction xs) simp_all

lemma np_sum_NaNs: "0 < n \<Longrightarrow> np_sum (replicate n NaN) = NaN"
  by (cases n) (simp_all add: np_sum_def foldl_np_add_NaN)

lemma entropy_zeros: "0 < n \<Longrightarrow> entropy (replicate n 0) = NaN"
  by (simp add: entropy_def Let_def sum_list_replicate np_divide_def np_sum_NaNs)

lemma skew_zeros: "skew (replicate n 0) = NaN"
  by (simp add: skew_def Let_def np_mean_zeros moment_zeros)

lemma kurtosis_zeros: "kurtosis (replicate n 0) = NaN"
  by (simp add: kurtosis_def Let_def np_mean_zeros moment_zeros)

lemma band_statistics_zeros:
  assumes "zero_band c"
  shows "band_statistics c = Inr zero_band_statistics"
proof -
  from assms obtain n where n: "0 < n" and c: "c = replicate n 0"
    unfolding zero_band_def by (metis length_greater_0_conv)
  have abs: "np_abs (replicate n 0) = replicate n 0"
    by (simp add: np_abs_def)
  have ne: "replicate n (0::real) \<noteq> []" using n by simp
  show ?thesis
    unfolding c band_statistics_def zero_band_statistics_def abs
    using n ne
    by (simp add: np_mean_zeros np_std_def moment_zeros skew_zeros kurtosis_zeros
        np_percentile_zeros np_max_zeros np_min_zeros sum_list_replicate entropy_zeros
        np_median_zeros)
qed

lemma features_loop_zeros:
  "\<forall>c \<in> set coeffs. zero_band c \<Longrightarrow>
   features_loop coeffs features
     = Inr (features @ concat (replicate (length coeffs) zero_band_statistics))"
proof (induction coeffs arbitrary: features)
  case Nil
  then show ?case by simp
next
  case (Cons coef coeffs)
  then have st: "band_statistics coef = Inr zero_band_statistics"
    by (simp add: band_statistics_zeros)
  from Cons.prems have "\<forall>c \<in> set coeffs. zero_band c" by simp
  from Cons.IH [OF this, of "features @ zero_band_statistics"] show ?case
    using st by (simp add: py_bind_def)
qed

lemma extract_wavelet_features_zeros_general:
  assumes "0 < n" and "0 \<le> level"
    and "2 \<le> length (dec_lo w)" and "2 \<le> length (dec_hi w)"
  shows "extract_wavelet_features (replicate n 0) w level
         = Inr (concat (replicate (nat level + 1) zero_band_statistics))"
proof -
  have z: "zero_band (replicate n 0)"
    using assms(1) by (simp add: zero_band_def)
  from wavedec_loop_zeros [OF assms(3,4) z, of "[]" "nat level"]
  obtain cs where cs: "wavedec_loop (nat level) w (replicate n 0) [] = Inr cs"
    and len: "length cs = nat level + 1" and zs: "\<forall>c \<in> set cs. zero_band c"
    by auto
  show ?thesis
    using cs len assms(2) features_loop_zeros [OF zs, of "[]"]
    by (simp add: extract_wavelet_features_def wavedec_def py_bind_def)
qed

text \<open>
  Claim C2, as the code has it. For an all-zero input waveform of at least one sample
  the extractor raises no error and returns 60 values. In each of the five bands the
  mean, the standard deviation, both percentiles, the maximum, the minimum, both norms
  and the median of the absolute values are 0, while the skewness, the kurtosis and the
  Shannon entropy are NaN: \<open>stats.entropy\<close> divides the all-zero band by its sum 0.
  No non-empty band, constant or not, makes the statistics raise.
\<close>

theorem extract_wavelet_features_all_zero:
  assumes "1 \<le> n"
  shows "extract_wavelet_features (replicate n 0) db4 4
         = Inr (concat (replicate 5
             [Fin 0, Fin 0, NaN, NaN, Fin 0, Fin 0, Fin 0, Fin 0, Fin 0, Fin 0, NaN, Fin 0]))
       \<and> (\<forall>coef. coef \<noteq> [] \<longrightarrow>
             (\<exists>stats. band_statistics coef = Inr stats \<and> length stats = 12))"
proof -
  from assms have "0 < n" by simp
  from extract_wavelet_features_zeros_general [OF this, of 4 db4]
  show ?thesis by (simp add: db4_taps zero_band_statistics_def band_statistics_length)
qed

theorem extract_wavelet_features_all_zero_witness:
  "1 \<le> (3 :: nat)
   \<and> extract_wavelet_features (replicate 3 0) db4 4
       = Inr (concat (replicate 5
           [Fin 0, Fin 0, NaN, NaN, Fin 0, Fin 0, Fin 0, Fin 0, Fin 0, Fin 0, NaN, Fin 0]))
   \<and> [2, 2, 2 :: real] \<noteq> []
   \<and> (\<exists>stats. band_statistics [2, 2, 2] = Inr stats \<and> length stats = 12)"
  using extract_wavelet_features_all_zero [of 3] by simp

text \<open>
  The claim as the specification states it fails on four zero samples: the feature
  vector holds NaN, and the entropy entry of every band (index 10 of its twelve) is NaN,
  not 0.
\<close>

theorem all_zero_entropy_counterexample:
  "extract_wavelet_features [0, 0, 0, 0] db4 4
     = Inr (concat (replicate 5
             [Fin 0, Fin 0, NaN, NaN, Fin 0, Fin 0, Fin 0, Fin 0, Fin 0, Fin 0, NaN, Fin 0]))"
proof -
  have "[0, 0, 0, 0 :: real] = replicate 4 0"
    by (simp add: numeral_Bit0 flip: replicate_append_same)
  then show ?thesis
    using extract_wavelet_features_zeros_general [of 4 4 db4]
    by (simp add: db4_taps zero_band_statistics_def)
qed

section \<open>Properties of the batch feature extraction\<close>

lemma process_rows_eq:
  "process_rows read dp rows (fl, ats, fns) =
     (fl @ map (\<lambda>row. projr (try_extract read dp row)) (filter (processed read dp) rows),
      ats @ map arrival_time (filter (processed read dp) rows),
      fns @ map file (filter (processed read dp) rows))"
proof (induction rows arbitrary: fl ats fns)
  case Nil
  then show ?case by simp
next
  case (Cons row rows)
  show ?case
  proof (cases "try_extract read dp row")
    case (Inl e)
    then show ?thesis by (simp add: Cons.IH processed_def)
  next
    case (Inr features)
    then show ?thesis by (simp add: Cons.IH processed_def)
  qed
qed

lemma extract_wavelet_features_empty: "extract_wavelet_features [] w 4 = Inl ValueError"
  by (simp add: extract_wavelet_features_def wavedec_def py_bind_def dwt_def numeral_eq_Suc)

lemma try_extract_Inr:
  "try_extract read dp row = Inr features \<Longrightarrow>
   \<exists>tr :: trace. first_trace read (os_path_join dp (file row)) = Inr tr
      \<and> extract_wavelet_features (data tr) db4 4 = Inr features"
  by (auto simp: try_extract_def Let_def py_bind_def split: sum.splits)

lemma try_extract_length:
  assumes "try_extract read dp row = Inr features"
  shows "length features = 60"
proof -
  from try_extract_Inr [OF assms] obtain tr :: trace
    where ex: "extract_wavelet_features (data tr) db4 4 = Inr features"
    by blast
  then have ne: "data tr \<noteq> []"
    using extract_wavelet_features_empty [of db4] by auto
  from extract_wavelet_features_length_general [OF ne, of 4 db4] ex
  show ?thesis by (simp add: db4_taps)
qed

lemma np_array_2d_features:
  "np_array_2d (map (\<lambda>row. projr (try_extract read dp row)) (filter (processed read dp) rows))
   = Inr (map (\<lambda>row. projr (try_extract read dp row)) (filter (processed read dp) rows))"
proof -
  have "\<And>row. processed read dp row \<Longrightarrow> length (projr (try_extract read dp row)) = 60"
    by (metis processed_def sum.collapse(2) try_extract_length)
  then have "\<forall>r \<in> set (map (\<lambda>row. projr (try_extract read dp row)) (filter (processed read dp) rows)).
               length r = 60"
    by auto
  then show ?thesis
    unfolding np_array_2d_def list_all_iff
    by (cases "filter (processed read dp) rows") auto
qed

lemma process_seismic_files_eq:
  "process_seismic_files read dp rows =
     Inr (map (\<lambda>row. projr (try_extract read dp row)) (filter (processed read dp) rows),
          map arrival_time (filter (processed read dp) rows),
          map file (filter (processed read dp) rows))"
  by (simp add: process_seismic_files_def process_rows_eq np_array_2d_features py_bind_def)

text \<open>
  Claim C3. For every label table and every state of the waveform directory, the batch
  run returns: no failure of a single item (a read that raises, an empty stream, a
  failed extraction) ends it. The feature array, the arrival-time array and the file
  name list have equal length, and the entries at one index belong to one row of the
  table whose waveform was read and whose features were extracted: its file name, its
  arrival time and the features of its waveform.
\<close>

theorem process_seismic_files_aligned:
  "\<exists>X y files. process_seismic_files read data_path arrivals_df = Inr (X, y, files)
      \<and> length X = length files \<and> length y = length files
      \<and> (\<forall>i < length files. \<exists>row \<in> set arrivals_df. \<exists>tr :: trace.
             files ! i = file row \<and> y ! i = arrival_time row
           \<and> first_trace read (os_path_join data_path (files ! i)) = Inr tr
           \<and> extract_wavelet_features (data tr) db4 4 = Inr (X ! i))"
proof -
  let ?ok = "filter (processed read data_path) arrivals_df"
  let ?X = "map (\<lambda>row. projr (try_extract read data_path row)) ?ok"
  let ?y = "map arrival_time ?ok"
  let ?files = "map file ?ok"
  have res: "process_seismic_files read data_path arrivals_df = Inr (?X, ?y, ?files)"
    by (rule process_seismic_files_eq)
  have "\<exists>row \<in> set arrivals_df. \<exists>tr :: trace.
             ?files ! i = file row \<and> ?y ! i = arrival_time row
           \<and> first_trace read (os_path_join data_path (?files ! i)) = Inr tr
           \<and> extract_wavelet_features (data tr) db4 4 = Inr (?X ! i)"
    if i: "i < length ?files" for i
  proof -
    let ?row = "?ok ! i"
    from i have "i < length ?ok" by simp
    then have mem: "?row \<in> set ?ok" by (rule nth_mem)
    from mem have row: "?row \<in> set arrivals_df"
      by simp
    from mem have ok: "processed read data_path ?row"
      by simp
    from ok have "try_extract read data_path ?row = Inr (projr (try_extract read data_path ?row))"
      by (simp add: processed_def)
    from try_extract_Inr [OF this] obtain tr :: trace
      where "first_trace read (os_path_join data_path (file ?row)) = Inr tr"
        and "extract_wavelet_features (data tr) db4 4
             = Inr (projr (try_extract read data_path ?row))"
      by blast
    then show ?thesis
      using row i by (intro bexI [of _ ?row] exI [of _ tr]) simp_all
  qed
  then show ?thesis
    using res by (intro exI [of _ ?X] exI [of _ ?y] exI [of _ ?files]) simp
qed

lemma four_zeros: "[0, 0, 0, 0 :: real] = replicate 4 0"
  by (simp add: numeral_Bit0 flip: replicate_append_same)

lemma example_try_extract:
  "try_extract example_reader ''/data'' \<lparr>file = ''01011426.mseed'', arrival_time = 30\<rparr>
     = Inr (concat (replicate 5 zero_band_statistics))"
  "try_extract example_reader ''/data'' \<lparr>file = ''09090909.mseed'', arrival_time = 10\<rparr>
     = Inl OSError"
  "try_extract example_reader ''/data'' \<lparr>file = ''02020202.mseed'', arrival_time = 20\<rparr>
     = Inl IndexError"
  "try_extract example_reader ''/data'' \<lparr>file = ''01020023.mseed'', arrival_time = 31\<rparr>
     = Inr (concat (replicate 5 zero_band_statistics))"
  using extract_wavelet_features_zeros_general [of 4 4 db4]
    extract_wavelet_features_zeros_general [of 6 4 db4]
  by (simp_all add: try_extract_def example_reader_def first_trace_def py_bind_def
      os_path_join_def startswith_def endswith_def db4_taps four_zeros)

lemma example_processed:
  "filter (processed example_reader ''/data'') example_arrivals
   = [\<lparr>file = ''01011426.mseed'', arrival_time = 30\<rparr>,
      \<lparr>file = ''01020023.mseed'', arrival_time = 31\<rparr>]"
  by (simp add: example_arrivals_def processed_def example_try_extract)

lemma example_result:
  "process_seismic_files example_reader ''/data'' example_arrivals
   = Inr ([concat (replicate 5 zero_band_statistics), concat (replicate 5 zero_band_statistics)],
          [30, 31], [''01011426.mseed'', ''01020023.mseed''])"
  by (simp add: process_seismic_files_eq example_processed example_try_extract)

theorem process_seismic_files_aligned_witness:
  "\<exists>X y files. process_seismic_files example_reader ''/data'' example_arrivals = Inr (X, y, files)
      \<and> files = [''01011426.mseed'', ''01020023.mseed''] \<and> y = [30, 31]
      \<and> length X = length files \<and> length y = length files
      \<and> (\<exists>row tr. row \<in> set example_arrivals
           \<and> files ! 1 = file row \<and> y ! 1 = arrival_time row
           \<and> first_trace example_reader (os_path_join ''/data'' (files ! 1)) = Inr (tr :: trace)
           \<and> extract_wavelet_features (data tr) db4 4 = Inr (X ! 1))"
proof -
  from process_seismic_files_aligned [of example_reader "''/data''" example_arrivals]
  obtain X y files where
    res: "process_seismic_files example_reader ''/data'' example_arrivals = Inr (X, y, files)"
    and len: "length X = length files" "length y = length files"
    and al: "\<forall>i < length files. \<exists>row \<in> set example_arrivals. \<exists>tr :: trace.
             files ! i = file row \<and> y ! i = arrival_time row
           \<and> first_trace example_reader (os_path_join ''/data'' (files ! i)) = Inr tr
           \<and> extract_wavelet_features (data tr) db4 4 = Inr (X ! i)"
    by blast
  from res have f: "files = [''01011426.mseed'', ''01020023.mseed'']" and y: "y = [30, 31]"
    by (simp_all add: example_result)
  then have "1 < length files" by simp
  with al have "\<exists>row \<in> set example_arrivals. \<exists>tr :: trace.
             files ! 1 = file row \<and> y ! 1 = arrival_time row
           \<and> first_trace example_reader (os_path_join ''/data'' (files ! 1)) = Inr tr
           \<and> extract_wavelet_features (data tr) db4 4 = Inr (X ! 1)"
    by blast
  then show ?thesis
    using res len f y by blast
qed

text \<open>
  Claim C10. The three returned collections list the processed rows of the label table
  in the order of the table: each is the image of the table with the skipped rows
  removed, nothing reordered.
\<close>

theorem process_seismic_files_order:
  "process_seismic_files read data_path arrivals_df
   = Inr (map (\<lambda>row. projr (try_extract read data_path row))
            (filter (processed read data_path) arrivals_df),
          map arrival_time (filter (processed read data_path) arrivals_df),
          map file (filter (processed read data_path) arrivals_df))"
  by (simp add: process_seismic_files_def process_rows_eq np_array_2d_features py_bind_def)

theorem process_seismic_files_order_witness:
  "filter (processed example_reader ''/data'') example_arrivals
     = [\<lparr>file = ''01011426.mseed'', arrival_time = 30\<rparr>,
        \<lparr>file = ''01020023.mseed'', arrival_time = 31\<rparr>]
   \<and> process_seismic_files example_reader ''/data'' example_arrivals
     = Inr ([concat (replicate 5 zero_band_statistics),
             concat (replicate 5 zero_band_statistics)],
            [30, 31], [''01011426.mseed'', ''01020023.mseed''])"
  using process_seismic_files_order [of example_reader "''/data''" example_arrivals]
  by (simp add: example_processed example_try_extract)

section \<open>Properties of the arrival-time matching\<close>

lemma digit_value_digit: "n < 10 \<Longrightarrow> digit_value (''0123456789'' ! n) = n"
proof -
  assume "n < 10"
  then have "n \<in> {0, 1, 2, 3, 4, 5, 6, 7, 8, 9}" by auto
  then show ?thesis
    by (auto simp: digit_value_def)
qed

lemma digit_not_minus: "n < 10 \<Longrightarrow> ''0123456789'' ! n \<noteq> CHR ''-''"
proof -
  assume "n < 10"
  then have "n \<in> {0, 1, 2, 3, 4, 5, 6, 7, 8, 9}" by auto
  then show ?thesis
    by auto
qed

lemma digits_to_nat_snoc: "digits_to_nat (s @ [c]) = digits_to_nat s * 10 + digit_value c"
  by (simp add: digits_to_nat_def)

lemma digits_to_nat_decimal_digits: "digits_to_nat (decimal_digits n) = n"
proof (induction n rule: decimal_digits.induct)
  case (1 n)
  show ?case
  proof (cases "n < 10")
    case True
    then show ?thesis
      by (simp add: decimal_digits.simps [of n] digits_to_nat_def digit_value_digit)
  next
    case False
    then have "digits_to_nat (decimal_digits (n div 10)) = n div 10"
      using "1.IH" by simp
    then show ?thesis
      using False
      by (simp add: decimal_digits.simps [of n] digits_to_nat_snoc digit_value_digit)
  qed
qed

lemma decimal_digits_nonempty: "decimal_digits n \<noteq> []"
  by (subst decimal_digits.simps) simp

lemma decimal_digits_not_minus: "take 1 (decimal_digits n) \<noteq> ''-''"
proof (induction n rule: decimal_digits.induct)
  case (1 n)
  show ?case
  proof (cases "n < 10")
    case True
    then show ?thesis
      by (simp add: decimal_digits.simps [of n] digit_not_minus)
  next
    case False
    with "1.IH" have IH: "take 1 (decimal_digits (n div 10)) \<noteq> ''-''" by simp
    have "decimal_digits (n div 10) \<noteq> []" by (rule decimal_digits_nonempty)
    then have "take 1 (decimal_digits (n div 10) @ [''0123456789'' ! (n mod 10)])
               = take 1 (decimal_digits (n div 10))"
      by (cases "decimal_digits (n div 10)") simp_all
    then show ?thesis
      using False IH by (simp add: decimal_digits.simps [of n])
  qed
qed

lemma digits_to_nat_zeros: "digits_to_nat (replicate k (CHR ''0'') @ s) = digits_to_nat s"
proof -
  have "foldl (\<lambda>acc c. acc * 10 + digit_value c) 0 (replicate k (CHR ''0'')) = 0"
    by (induction k) (simp_all add: digit_value_def)
  then show ?thesis
    by (simp add: digits_to_nat_def)
qed

lemma take_1_zeros: "take 1 (replicate k (CHR ''0'') @ s) \<noteq> ''-''" if "take 1 s \<noteq> ''-''"
  using that by (cases k) simp_all

lemma unformat_format_08d: "unformat (format_08d i) = i"
proof (cases "i < 0")
  case True
  then show ?thesis
    by (simp add: format_08d_def unformat_def Let_def digits_to_nat_zeros
        digits_to_nat_decimal_digits)
next
  case False
  let ?d = "decimal_digits (nat \<bar>i\<bar>)"
  have "take 1 (replicate (8 - length ?d) (CHR ''0'') @ ?d) \<noteq> ''-''"
    by (rule take_1_zeros) (rule decimal_digits_not_minus)
  then show ?thesis
    using False
    by (simp add: format_08d_def unformat_def Let_def digits_to_nat_zeros
        digits_to_nat_decimal_digits)
qed

lemma mseed_file_name_inj: "mseed_file_name a = mseed_file_name b \<Longrightarrow> a = b"
proof -
  assume "mseed_file_name a = mseed_file_name b"
  then have "format_08d a = format_08d b"
    by (simp add: mseed_file_name_def)
  then have "unformat (format_08d a) = unformat (format_08d b)" by simp
  then show ?thesis by (simp add: unformat_format_08d)
qed

lemma match_rows_eq:
  assumes "dtype \<noteq> Float64"
  shows "match_rows read dp dtype rows (ats, fns, pr) =
     Inr (ats @ map (\<lambda>row. lec_p row - projr (window_start read dp row))
                   (filter (readable read dp) rows),
          fns @ map (\<lambda>row. mseed_file_name (archivo row)) (filter (readable read dp) rows),
          pr @ map (\<lambda>row. mseed_file_name (archivo row))
                  (filter (\<lambda>row. \<not> readable read dp row) rows))"
proof (induction rows arbitrary: ats fns pr)
  case Nil
  then show ?case by simp
next
  case (Cons row rows)
  have fmt: "format_number_08d (iterrows_archivo dtype row) = Inr (format_08d (archivo row))"
    using assms by (simp add: iterrows_archivo_def)
  show ?case
  proof (cases "first_trace read (os_path_join dp (mseed_file_name (archivo row)))")
    case (Inl e)
    then show ?thesis
      by (simp add: Cons.IH fmt readable_def window_start_def py_bind_def Let_def
          mseed_file_name_def)
  next
    case (Inr tr)
    then show ?thesis
      by (simp add: Cons.IH fmt readable_def window_start_def py_bind_def Let_def
          mseed_file_name_def)
  qed
qed

lemma match_rows_float:
  "match_rows read dp Float64 (row # rows) (ats, fns, pr) = Inl ValueError"
  by (simp add: iterrows_archivo_def)

lemma match_arrival_times_eq:
  assumes "listdir_numbers listdir [] = Inr mseed_files"
    and "values_dtype df \<noteq> Float64
         \<or> filter (\<lambda>row. archivo row \<in> set mseed_files) (table_rows df) = []"
  shows "match_arrival_times read listdir dp df =
     Inr (map (\<lambda>row. \<lparr>file = mseed_file_name (archivo row),
                        arrival_time = lec_p row - projr (window_start read dp row)\<rparr>)
            (filter (readable read dp)
               (filter (\<lambda>row. archivo row \<in> set mseed_files) (table_rows df))),
          map (\<lambda>row. mseed_file_name (archivo row))
            (filter (\<lambda>row. \<not> readable read dp row)
               (filter (\<lambda>row. archivo row \<in> set mseed_files) (table_rows df))))"
proof (cases "values_dtype df = Float64")
  case False
  then show ?thesis
    by (simp add: match_arrival_times_def assms(1) py_bind_def match_rows_eq zip_map_map
        Let_def zip_same_conv_map del: filter_filter)
next
  case True
  with assms(2)
  have "filter (\<lambda>row. archivo row \<in> set mseed_files) (table_rows df) = []"
    by simp
  then show ?thesis
    by (simp add: match_arrival_times_def assms(1) py_bind_def Let_def del: filter_filter)
qed

lemma match_arrival_times_raises:
  assumes "listdir_numbers listdir [] = Inr mseed_files"
    and "values_dtype df = Float64"
    and "filter (\<lambda>row. archivo row \<in> set mseed_files) (table_rows df) \<noteq> []"
  shows "match_arrival_times read listdir dp df = Inl ValueError"
proof -
  from assms(3) obtain row rows
    where "filter (\<lambda>row. archivo row \<in> set mseed_files) (table_rows df) = row # rows"
    by (cases "filter (\<lambda>row. archivo row \<in> set mseed_files) (table_rows df)") auto
  then show ?thesis
    by (simp add: match_arrival_times_def assms(1,2) py_bind_def Let_def match_rows_float
        del: filter_filter match_rows.simps)
qed

lemma window_start_readable:
  "readable read dp row \<Longrightarrow> window_start read dp row = Inr (projr (window_start read dp row))"
  by (simp add: readable_def)

lemma no_match_iff:
  "(filter (\<lambda>row. archivo row \<in> set ms) rows = []) = (\<forall>row \<in> set rows. archivo row \<notin> set ms)"
  by (simp add: filter_empty_conv)

text \<open>
  Claim C4, as the code has it. Let the names in the directory parse. On a pick table
  whose rows come back as \<open>float64\<close> and that has a row matching a file, the matching
  step raises \<open>ValueError\<close> and emits no label. On every other pick table it returns,
  and every label it emits is the absolute pick time of a row of the pick table minus
  the window start read from that row's waveform file. No range check is applied: the
  label lies between 0 and the window duration exactly when the pick time lies between
  the window start and the window start plus the window duration.
\<close>

theorem match_arrival_times_labels:
  assumes "listdir_numbers listdir [] = Inr mseed_files"
  shows "(values_dtype df = Float64
            \<and> (\<exists>row \<in> set (table_rows df). archivo row \<in> set mseed_files)
          \<longrightarrow> match_arrival_times read listdir directory_path df = Inl ValueError)
       \<and> (values_dtype df \<noteq> Float64
            \<or> (\<forall>row \<in> set (table_rows df). archivo row \<notin> set mseed_files)
          \<longrightarrow> (\<exists>result_df printed.
                 match_arrival_times read listdir directory_path df = Inr (result_df, printed)
               \<and> (\<forall>r \<in> set result_df. \<exists>row \<in> set (table_rows df). \<exists>t0.
                     file r = mseed_file_name (archivo row)
                   \<and> window_start read directory_path row = Inr t0
                   \<and> arrival_time r = lec_p row - t0
                   \<and> ((0 \<le> arrival_time r \<and> arrival_time r \<le> window_duration)
                        = (t0 \<le> lec_p row \<and> lec_p row \<le> t0 + window_duration)))))"
proof (intro conjI impI)
  assume "values_dtype df = Float64
            \<and> (\<exists>row \<in> set (table_rows df). archivo row \<in> set mseed_files)"
  then have "values_dtype df = Float64"
    and "filter (\<lambda>row. archivo row \<in> set mseed_files) (table_rows df) \<noteq> []"
    by (auto simp: no_match_iff)
  then show "match_arrival_times read listdir directory_path df = Inl ValueError"
    by (rule match_arrival_times_raises [OF assms])
next
  assume "values_dtype df \<noteq> Float64
            \<or> (\<forall>row \<in> set (table_rows df). archivo row \<notin> set mseed_files)"
  then have ok: "values_dtype df \<noteq> Float64
         \<or> filter (\<lambda>row. archivo row \<in> set mseed_files) (table_rows df) = []"
    by (simp only: no_match_iff)
  let ?matched = "filter (\<lambda>row. archivo row \<in> set mseed_files) (table_rows df)"
  let ?ok = "filter (readable read directory_path) ?matched"
  let ?res = "map (\<lambda>row. \<lparr>file = mseed_file_name (archivo row),
                        arrival_time = lec_p row - projr (window_start read directory_path row)\<rparr>)
               ?ok"
  have eq: "match_arrival_times read listdir directory_path df
            = Inr (?res, map (\<lambda>row. mseed_file_name (archivo row))
                     (filter (\<lambda>row. \<not> readable read directory_path row) ?matched))"
    by (rule match_arrival_times_eq [OF assms ok])
  have "\<exists>row \<in> set (table_rows df). \<exists>t0.
               file r = mseed_file_name (archivo row)
             \<and> window_start read directory_path row = Inr t0
             \<and> arrival_time r = lec_p row - t0
             \<and> ((0 \<le> arrival_time r \<and> arrival_time r \<le> window_duration)
                  = (t0 \<le> lec_p row \<and> lec_p row \<le> t0 + window_duration))"
    if "r \<in> set ?res" for r
  proof -
    from that obtain row where row: "row \<in> set ?ok"
      and r: "r = \<lparr>file = mseed_file_name (archivo row),
                   arrival_time = lec_p row - projr (window_start read directory_path row)\<rparr>"
      by auto
    from row have mem: "row \<in> set (table_rows df)" and rd: "readable read directory_path row"
      by simp_all
    let ?t0 = "projr (window_start read directory_path row)"
    have "window_start read directory_path row = Inr ?t0"
      using rd by (rule window_start_readable)
    moreover have "(0 \<le> arrival_time r \<and> arrival_time r \<le> window_duration)
                  = (?t0 \<le> lec_p row \<and> lec_p row \<le> ?t0 + window_duration)"
      unfolding r by auto
    ultimately show ?thesis
      using mem r by (intro bexI [of _ row] exI [of _ ?t0]) simp_all
  qed
  then show "\<exists>result_df printed.
                 match_arrival_times read listdir directory_path df = Inr (result_df, printed)
               \<and> (\<forall>r \<in> set result_df. \<exists>row \<in> set (table_rows df). \<exists>t0.
                     file r = mseed_file_name (archivo row)
                   \<and> window_start read directory_path row = Inr t0
                   \<and> arrival_time r = lec_p row - t0
                   \<and> ((0 \<le> arrival_time r \<and> arrival_time r \<le> window_duration)
                        = (t0 \<le> lec_p row \<and> lec_p row \<le> t0 + window_duration)))"
    using eq by blast
qed

lemma example_listdir_numbers: "listdir_numbers example_listdir [] = Inr [1011426, 7]"
  by (simp add: example_listdir_def endswith_def py_bind_def py_int_def strip_def isspace_def
      parse_decimal_def isdigit_def digit_value_def)

lemma zero_padding_step:
  "replicate (numeral k) (CHR ''0'') = CHR ''0'' # replicate (pred_numeral k) (CHR ''0'')"
  by (simp add: numeral_eq_Suc)

lemma example_names:
  "mseed_file_name 1011426 = ''01011426.mseed''"
  "mseed_file_name 7 = ''00000007.mseed''"
  "mseed_file_name 5 = ''00000005.mseed''"
  by (simp_all add: mseed_file_name_def format_08d_def decimal_digits.simps zero_padding_step)

lemma example_window_start:
  "window_start example_reader ''/data'' \<lparr>archivo = 1011426, lec_p = t\<rparr> = Inr 1704137160"
  "window_start example_reader ''/data'' \<lparr>archivo = 7, lec_p = t\<rparr> = Inl OSError"
  by (simp_all add: window_start_def example_names example_reader_def first_trace_def
      py_bind_def os_path_join_def startswith_def endswith_def)

lemma example_match_object:
  "match_arrival_times example_reader example_listdir ''/data''
     \<lparr>values_dtype = Object, table_rows = example_picks t\<rparr>
   = Inr ([\<lparr>file = ''01011426.mseed'', arrival_time = t - 1704137160\<rparr>], [''00000007.mseed''])"
proof -
  have "values_dtype \<lparr>values_dtype = Object, table_rows = example_picks t\<rparr> \<noteq> Float64
        \<or> filter (\<lambda>row. archivo row \<in> set [1011426, 7])
             (table_rows \<lparr>values_dtype = Object, table_rows = example_picks t\<rparr>) = []"
    by simp
  from match_arrival_times_eq [OF example_listdir_numbers this, of example_reader "''/data''"]
  show ?thesis
    by (simp add: example_picks_def readable_def example_window_start example_names)
qed

lemma example_match_float:
  "match_arrival_times example_reader example_listdir ''/data''
     \<lparr>values_dtype = Float64, table_rows = example_picks t\<rparr> = Inl ValueError"
proof -
  have "filter (\<lambda>row. archivo row \<in> set [1011426, 7])
          (table_rows \<lparr>values_dtype = Float64, table_rows = example_picks t\<rparr>) \<noteq> []"
    by (simp add: example_picks_def)
  from match_arrival_times_raises [OF example_listdir_numbers _ this, of example_reader "''/data''"]
  show ?thesis by simp
qed

theorem match_arrival_times_labels_witness:
  "listdir_numbers example_listdir [] = Inr [1011426, 7]
   \<and> values_dtype \<lparr>values_dtype = Object, table_rows = example_picks 1704137190\<rparr> \<noteq> Float64
   \<and> (\<exists>result_df printed.
         match_arrival_times example_reader example_listdir ''/data''
           \<lparr>values_dtype = Object, table_rows = example_picks 1704137190\<rparr>
           = Inr (result_df, printed)
       \<and> result_df = [\<lparr>file = ''01011426.mseed'', arrival_time = 30\<rparr>]
       \<and> (\<exists>r row t0. r \<in> set result_df
            \<and> row \<in> set (example_picks 1704137190)
            \<and> file r = mseed_file_name (archivo row)
            \<and> window_start example_reader ''/data'' row = Inr t0
            \<and> arrival_time r = lec_p row - t0
            \<and> ((0 \<le> arrival_time r \<and> arrival_time r \<le> 80)
                 = (t0 \<le> lec_p row \<and> lec_p row \<le> t0 + 80))))
   \<and> values_dtype \<lparr>values_dtype = Float64, table_rows = example_picks 1704137190\<rparr> = Float64
   \<and> (\<exists>row. row \<in> set (example_picks 1704137190) \<and> archivo row \<in> set [1011426, 7])
   \<and> match_arrival_times example_reader example_listdir ''/data''
         \<lparr>values_dtype = Float64, table_rows = example_picks 1704137190\<rparr> = Inl ValueError"
proof -
  let ?obj = "\<lparr>values_dtype = Object, table_rows = example_picks 1704137190\<rparr>"
  let ?flt = "\<lparr>values_dtype = Float64, table_rows = example_picks 1704137190\<rparr>"
  note thm_obj = match_arrival_times_labels [OF example_listdir_numbers,
      of ?obj example_reader "''/data''" 80]
  note thm_flt = match_arrival_times_labels [OF example_listdir_numbers,
      of ?flt example_reader "''/data''" 80]
  have m: "\<exists>row. row \<in> set (example_picks 1704137190) \<and> archivo row \<in> set [1011426, 7]"
    by (rule exI [of _ "\<lparr>archivo = 1011426, lec_p = 1704137190\<rparr>"])
       (simp add: example_picks_def)
  have nf: "values_dtype ?obj \<noteq> Float64
            \<or> (\<forall>row \<in> set (table_rows ?obj). archivo row \<notin> set [1011426, 7])"
    by simp
  from thm_obj [THEN conjunct2, THEN mp, OF nf] obtain result_df printed where
    res: "match_arrival_times example_reader example_listdir ''/data'' ?obj
          = Inr (result_df, printed)"
    and lab: "\<forall>r \<in> set result_df. \<exists>row \<in> set (table_rows ?obj). \<exists>t0.
               file r = mseed_file_name (archivo row)
             \<and> window_start example_reader ''/data'' row = Inr t0
             \<and> arrival_time r = lec_p row - t0
             \<and> ((0 \<le> arrival_time r \<and> arrival_time r \<le> 80)
                  = (t0 \<le> lec_p row \<and> lec_p row \<le> t0 + 80))"
    by blast
  from res have r: "result_df = [\<lparr>file = ''01011426.mseed'', arrival_time = 30\<rparr>]"
    by (simp add: example_match_object)
  let ?r = "\<lparr>file = ''01011426.mseed'', arrival_time = 30\<rparr>"
  have mem: "?r \<in> set result_df"
    unfolding r by simp
  from bspec [OF lab mem] obtain row t0 where
    row: "row \<in> set (table_rows ?obj)"
    and f1: "file ?r = mseed_file_name (archivo row)"
    and f2: "window_start example_reader ''/data'' row = Inr t0"
    and f3: "arrival_time ?r = lec_p row - t0"
    and f4: "(0 \<le> arrival_time ?r \<and> arrival_time ?r \<le> 80)
                 = (t0 \<le> lec_p row \<and> lec_p row \<le> t0 + 80)"
    by blast
  from row have row': "row \<in> set (example_picks 1704137190)"
    by simp
  have ex: "\<exists>r row t0. r \<in> set result_df \<and> row \<in> set (example_picks 1704137190)
            \<and> file r = mseed_file_name (archivo row)
            \<and> window_start example_reader ''/data'' row = Inr t0
            \<and> arrival_time r = lec_p row - t0
            \<and> ((0 \<le> arrival_time r \<and> arrival_time r \<le> 80)
                 = (t0 \<le> lec_p row \<and> lec_p row \<le> t0 + 80))"
    by (intro exI [of _ ?r] exI [of _ row] exI [of _ t0] conjI)
       (rule mem, rule row', rule f1, rule f2, rule f3, rule f4)
  have fm: "values_dtype ?flt = Float64
            \<and> (\<exists>row \<in> set (table_rows ?flt). archivo row \<in> set [1011426, 7])"
  proof -
    from m obtain row where "row \<in> set (example_picks 1704137190)"
      and "archivo row \<in> set [1011426, 7]"
      by blast
    then show ?thesis by (intro conjI bexI [of _ row]) simp_all
  qed
  have flt: "match_arrival_times example_reader example_listdir ''/data'' ?flt = Inl ValueError"
    by (rule thm_flt [THEN conjunct1, THEN mp, OF fm])
  have part: "\<exists>result_df printed.
         match_arrival_times example_reader example_listdir ''/data'' ?obj
           = Inr (result_df, printed)
       \<and> result_df = [\<lparr>file = ''01011426.mseed'', arrival_time = 30\<rparr>]
       \<and> (\<exists>r row t0. r \<in> set result_df
            \<and> row \<in> set (example_picks 1704137190)
            \<and> file r = mseed_file_name (archivo row)
            \<and> window_start example_reader ''/data'' row = Inr t0
            \<and> arrival_time r = lec_p row - t0
            \<and> ((0 \<le> arrival_time r \<and> arrival_time r \<le> 80)
                 = (t0 \<le> lec_p row \<and> lec_p row \<le> t0 + 80)))"
    by (intro exI [of _ result_df] exI [of _ printed] conjI) (rule res, rule r, rule ex)
  have d1: "values_dtype ?obj \<noteq> Float64" and d2: "values_dtype ?flt = Float64"
    by simp_all
  show ?thesis
    by (intro conjI) (rule example_listdir_numbers, rule d1, rule part, rule d2, rule m, rule flt)
qed

text \<open>
  The claim as the specification states it fails: on a pick table with a text column, a
  pick time 60 seconds before the window start gives the label \<open>-60\<close>.
\<close>

theorem arrival_label_negative_counterexample:
  "match_arrival_times example_reader example_listdir ''/data''
     \<lparr>values_dtype = Object, table_rows = example_picks 1704137100\<rparr>
   = Inr ([\<lparr>file = ''01011426.mseed'', arrival_time = - 60\<rparr>], [''00000007.mseed''])
   \<and> \<not> (0 \<le> (- 60 :: real))"
  by (simp add: example_match_object)

text \<open>
  Claim C8. A row of the pick table has no corresponding waveform file when its file id
  is not the integer value of any \<open>.mseed\<close> name in the directory: that is the test the
  code applies (\<open>isin\<close>). Such a row is filtered out before the loop. Let the names in
  the directory parse. Then the outcome of the matching step, be it the result with the
  printed lines or an exception, is the same as for the table without the row; when the
  step returns, the file name of the row is in neither column of the result and in no
  printed error line; an exception can only come from formatting the id of a matched
  row of a \<open>float64\<close> table, never from this row; and on every other table the step
  returns. (A row that passes the filter while the file \<open>f"{file_id:08d}.mseed"\<close> cannot
  be read is another case: it is skipped with a printed error line.)
\<close>

theorem match_arrival_times_unmatched_excluded:
  assumes "listdir_numbers listdir [] = Inr mseed_files"
    and "row \<in> set (table_rows df)" and "archivo row \<notin> set mseed_files"
  shows "match_arrival_times read listdir directory_path df
           = match_arrival_times read listdir directory_path
               (df\<lparr>table_rows := removeAll row (table_rows df)\<rparr>)
       \<and> (case match_arrival_times read listdir directory_path df of
            Inr (result_df, printed) \<Rightarrow>
              mseed_file_name (archivo row) \<notin> set (map file result_df)
            \<and> mseed_file_name (archivo row) \<notin> set printed
          | Inl e \<Rightarrow>
              values_dtype df = Float64
            \<and> (\<exists>other \<in> set (table_rows df). other \<noteq> row \<and> archivo other \<in> set mseed_files))
       \<and> (values_dtype df \<noteq> Float64
          \<longrightarrow> (\<exists>result_df printed.
                 match_arrival_times read listdir directory_path df = Inr (result_df, printed)))"
proof -
  let ?P = "\<lambda>row. archivo row \<in> set mseed_files"
  let ?df' = "df\<lparr>table_rows := removeAll row (table_rows df)\<rparr>"
  let ?matched = "filter ?P (table_rows df)"
  let ?res = "map (\<lambda>row. \<lparr>file = mseed_file_name (archivo row),
                        arrival_time = lec_p row - projr (window_start read directory_path row)\<rparr>)
               (filter (readable read directory_path) ?matched)"
  let ?pr = "map (\<lambda>row. mseed_file_name (archivo row))
               (filter (\<lambda>row. \<not> readable read directory_path row) ?matched)"
  have rm: "filter ?P (removeAll row rows) = filter ?P rows" for rows
    using assms(3) by (induction rows) auto
  have rows': "table_rows ?df' = removeAll row (table_rows df)"
    and dtype': "values_dtype ?df' = values_dtype df"
    by simp_all
  have same: "filter ?P (table_rows ?df') = ?matched"
    unfolding rows' by (rule rm)
  have notin: "mseed_file_name (archivo row) \<noteq> mseed_file_name (archivo r)"
    if "r \<in> set ?matched" for r
  proof
    assume "mseed_file_name (archivo row) = mseed_file_name (archivo r)"
    then have "archivo row = archivo r" by (rule mseed_file_name_inj)
    with that assms(3) show False by simp
  qed
  have names: "mseed_file_name (archivo row) \<notin> set (map file ?res)
             \<and> mseed_file_name (archivo row) \<notin> set ?pr"
    using notin by (auto simp: comp_def)
  show ?thesis
  proof (cases "values_dtype df \<noteq> Float64 \<or> ?matched = []")
    case True
    then have ok': "values_dtype ?df' \<noteq> Float64 \<or> filter ?P (table_rows ?df') = []"
      unfolding same dtype' .
    have eq: "match_arrival_times read listdir directory_path df = Inr (?res, ?pr)"
      by (rule match_arrival_times_eq [OF assms(1) True])
    have eq': "match_arrival_times read listdir directory_path ?df' = Inr (?res, ?pr)"
      using match_arrival_times_eq [OF assms(1) ok', of read directory_path]
      unfolding same .
    have p1: "match_arrival_times read listdir directory_path df
              = match_arrival_times read listdir directory_path ?df'"
      by (simp only: eq eq')
    have p2: "case match_arrival_times read listdir directory_path df of
            Inr (result_df, printed) \<Rightarrow>
              mseed_file_name (archivo row) \<notin> set (map file result_df)
            \<and> mseed_file_name (archivo row) \<notin> set printed
          | Inl e \<Rightarrow>
              values_dtype df = Float64
            \<and> (\<exists>other \<in> set (table_rows df). other \<noteq> row \<and> archivo other \<in> set mseed_files)"
      by (simp only: eq sum.case prod.case) (rule names)
    have p3: "\<exists>result_df printed.
                 match_arrival_times read listdir directory_path df = Inr (result_df, printed)"
      using eq by blast
    show ?thesis
      by (intro conjI impI) (rule p1, rule p2, rule p3)
  next
    case False
    then have fl: "values_dtype df = Float64" and ne: "?matched \<noteq> []"
      by simp_all
    have fl': "values_dtype ?df' = Float64"
      unfolding dtype' by (rule fl)
    have ne': "filter ?P (table_rows ?df') \<noteq> []"
      unfolding same by (rule ne)
    have eq: "match_arrival_times read listdir directory_path df = Inl ValueError"
      by (rule match_arrival_times_raises [OF assms(1) fl ne])
    have eq': "match_arrival_times read listdir directory_path ?df' = Inl ValueError"
      by (rule match_arrival_times_raises [OF assms(1) fl' ne'])
    from ne obtain other where "other \<in> set ?matched"
      by (cases ?matched) auto
    then have o1: "other \<in> set (table_rows df)" and o2: "archivo other \<in> set mseed_files"
      by simp_all
    from o2 assms(3) have o3: "other \<noteq> row" by auto
    have ex: "\<exists>other \<in> set (table_rows df). other \<noteq> row \<and> archivo other \<in> set mseed_files"
      using o1 o2 o3 by blast
    have p1: "match_arrival_times read listdir directory_path df
              = match_arrival_times read listdir directory_path ?df'"
      by (simp only: eq eq')
    have p2: "case match_arrival_times read listdir directory_path df of
            Inr (result_df, printed) \<Rightarrow>
              mseed_file_name (archivo row) \<notin> set (map file result_df)
            \<and> mseed_file_name (archivo row) \<notin> set printed
          | Inl e \<Rightarrow>
              values_dtype df = Float64
            \<and> (\<exists>other \<in> set (table_rows df). other \<noteq> row \<and> archivo other \<in> set mseed_files)"
      using fl ex by (simp only: eq sum.case)
    show ?thesis
    proof (intro conjI impI)
      assume "values_dtype df \<noteq> Float64"
      with fl show "\<exists>result_df printed.
                 match_arrival_times read listdir directory_path df = Inr (result_df, printed)"
        by simp
    qed (rule p1, rule p2)
  qed
qed

theorem match_arrival_times_unmatched_excluded_witness:
  "listdir_numbers example_listdir [] = Inr [1011426, 7]
   \<and> \<lparr>archivo = 5, lec_p = 1704200000\<rparr> \<in> set (example_picks 1704137190)
   \<and> archivo \<lparr>archivo = 5, lec_p = 1704200000\<rparr> \<notin> set [1011426, 7]
   \<and> match_arrival_times example_reader example_listdir ''/data''
         \<lparr>values_dtype = Object, table_rows = example_picks 1704137190\<rparr>
       = Inr ([\<lparr>file = ''01011426.mseed'', arrival_time = 30\<rparr>], [''00000007.mseed''])
   \<and> match_arrival_times example_reader example_listdir ''/data''
         \<lparr>values_dtype = Object,
          table_rows = [\<lparr>archivo = 1011426, lec_p = 1704137190\<rparr>,
                        \<lparr>archivo = 7, lec_p = 1704300000\<rparr>]\<rparr>
       = Inr ([\<lparr>file = ''01011426.mseed'', arrival_time = 30\<rparr>], [''00000007.mseed''])
   \<and> ''00000005.mseed'' \<notin> set (map file [\<lparr>file = ''01011426.mseed'', arrival_time = 30\<rparr>])
   \<and> ''00000005.mseed'' \<notin> set [''00000007.mseed'']
   \<and> match_arrival_times example_reader example_listdir ''/data''
         \<lparr>values_dtype = Float64, table_rows = example_picks 1704137190\<rparr>
       = match_arrival_times example_reader example_listdir ''/data''
           \<lparr>values_dtype = Float64,
            table_rows = [\<lparr>archivo = 1011426, lec_p = 1704137190\<rparr>,
                          \<lparr>archivo = 7, lec_p = 1704300000\<rparr>]\<rparr>"
proof -
  let ?row = "\<lparr>archivo = 5, lec_p = 1704200000\<rparr>"
  let ?obj = "\<lparr>values_dtype = Object, table_rows = example_picks 1704137190\<rparr>"
  let ?flt = "\<lparr>values_dtype = Float64, table_rows = example_picks 1704137190\<rparr>"
  have rm: "removeAll ?row (example_picks 1704137190)
            = [\<lparr>archivo = 1011426, lec_p = 1704137190\<rparr>, \<lparr>archivo = 7, lec_p = 1704300000\<rparr>]"
    by (simp add: example_picks_def)
  have h2: "?row \<in> set (table_rows ?obj)" and h2': "?row \<in> set (table_rows ?flt)"
    by (simp_all add: example_picks_def)
  have h3: "archivo ?row \<notin> set [1011426, 7]" by simp
  note obj = match_arrival_times_unmatched_excluded [OF example_listdir_numbers h2 h3,
      of example_reader "''/data''"]
  note flt = match_arrival_times_unmatched_excluded [OF example_listdir_numbers h2' h3,
      of example_reader "''/data''"]
  have e: "match_arrival_times example_reader example_listdir ''/data'' ?obj
       = Inr ([\<lparr>file = ''01011426.mseed'', arrival_time = 30\<rparr>], [''00000007.mseed''])"
    by (simp add: example_match_object)
  from obj have same: "match_arrival_times example_reader example_listdir ''/data'' ?obj
      = match_arrival_times example_reader example_listdir ''/data''
          \<lparr>values_dtype = Object,
           table_rows = [\<lparr>archivo = 1011426, lec_p = 1704137190\<rparr>,
                         \<lparr>archivo = 7, lec_p = 1704300000\<rparr>]\<rparr>"
    by (simp add: rm)
  from obj e have out: "''00000005.mseed'' \<notin> set (map file [\<lparr>file = ''01011426.mseed'', arrival_time = 30\<rparr>])"
    "''00000005.mseed'' \<notin> set [''00000007.mseed'']"
    by (simp_all add: example_names)
  from flt have same': "match_arrival_times example_reader example_listdir ''/data'' ?flt
      = match_arrival_times example_reader example_listdir ''/data''
          \<lparr>values_dtype = Float64,
           table_rows = [\<lparr>archivo = 1011426, lec_p = 1704137190\<rparr>,
                         \<lparr>archivo = 7, lec_p = 1704300000\<rparr>]\<rparr>"
    by (simp add: rm)
  show ?thesis
    using e same out same' example_listdir_numbers h3
    by (simp add: example_picks_def)
qed

section \<open>Properties of the train and test split\<close>

lemma n_test_fifth: "nat \<lceil>(1 / 5) * real n\<rceil> = (n + 4) div 5"
proof -
  have "\<lceil>(1 / 5) * real n\<rceil> = \<lceil>real_of_int (int n) / real_of_int 5\<rceil>"
    by simp
  also have "\<dots> = - ((- int n) div 5)"
    by (simp only: ceiling_divide_eq_div)
  also have "\<dots> = (int n + 4) div 5"
    by arith
  finally show ?thesis
    by (simp add: nat_div_distrib nat_add_distrib)
qed

lemma validate_fifth:
  "validate_shuffle_split n (1 / 5) =
     (if n < 2 then Inl ValueError else Inr (n - (n + 4) div 5, (n + 4) div 5))"
proof -
  have "n - (n + 4) div 5 = 0 \<longleftrightarrow> n < 2"
    by arith
  then show ?thesis
    unfolding validate_shuffle_split_def n_test_fifth Let_def by simp
qed

lemma is_permutation_length: "is_permutation n p \<Longrightarrow> length p = n"
  by (metis is_permutation_def distinct_card card_atLeastLessThan diff_zero)

lemma map_nth_inj:
  assumes "distinct df" and "distinct p" and "set p \<subseteq> {0..<length df}"
  shows "distinct (map (\<lambda>i. df ! i) p)"
proof -
  have "inj_on (\<lambda>i. df ! i) (set p)"
  proof (rule inj_onI)
    fix x y
    assume "x \<in> set p" and "y \<in> set p" and eq: "df ! x = df ! y"
    then have "x < length df" and "y < length df"
      using assms(3) by auto
    then show "x = y"
      using eq nth_eq_iff_index_eq [OF assms(1)] by blast
  qed
  then show ?thesis
    using assms(2) by (simp add: distinct_map)
qed

lemma split_partition:
  assumes "distinct df" and "is_permutation (length df) p" and "k \<le> length df"
  shows "set (map (\<lambda>i. df ! i) (drop k p)) \<inter> set (map (\<lambda>i. df ! i) (take k p)) = {}
       \<and> set (map (\<lambda>i. df ! i) (drop k p)) \<union> set (map (\<lambda>i. df ! i) (take k p)) = set df"
proof -
  from assms(2) have dp: "distinct p" and sp: "set p = {0..<length df}"
    by (simp_all add: is_permutation_def)
  have "distinct (map (\<lambda>i. df ! i) p)"
    using assms(1) dp sp by (intro map_nth_inj) simp_all
  then have "distinct (map (\<lambda>i. df ! i) (take k p) @ map (\<lambda>i. df ! i) (drop k p))"
    by (simp flip: map_append)
  then have disj: "set (map (\<lambda>i. df ! i) (drop k p)) \<inter> set (map (\<lambda>i. df ! i) (take k p)) = {}"
    by auto
  have "set (map (\<lambda>i. df ! i) (take k p)) \<union> set (map (\<lambda>i. df ! i) (drop k p))
        = set (map (\<lambda>i. df ! i) (take k p @ drop k p))"
    by (simp only: map_append set_append)
  also have "\<dots> = (\<lambda>i. df ! i) ` {0..<length df}"
    using sp by simp
  also have "\<dots> = set (map (\<lambda>i. df ! i) [0..<length df])"
    by simp
  also have "\<dots> = set df"
    by (simp only: map_nth)
  finally show ?thesis
    using disj by auto
qed

lemma train_test_split_fifth:
  assumes "2 \<le> length df" and "is_permutation (length df) (permutation (length df))"
  shows "train_test_split df (1 / 5) permutation
         = Inr (map (\<lambda>i. df ! i) (drop ((length df + 4) div 5) (permutation (length df))),
                map (\<lambda>i. df ! i) (take ((length df + 4) div 5) (permutation (length df))))"
proof -
  have "length (permutation (length df)) = length df"
    using assms(2) by (rule is_permutation_length)
  then have "take (length df - (length df + 4) div 5)
               (drop ((length df + 4) div 5) (permutation (length df)))
             = drop ((length df + 4) div 5) (permutation (length df))"
    by simp
  then show ?thesis
    using assms(1) by (simp add: train_test_split_def validate_fifth py_bind_def Let_def)
qed

lemma train_test_split_too_small:
  "length df < 2 \<Longrightarrow> train_test_split df (1 / 5) permutation = Inl ValueError"
  by (simp add: train_test_split_def validate_fifth py_bind_def)

text \<open>
  Claim C5. For every corpus of distinct source identities, split with the fixed test
  fraction 0.2 and the fixed shuffle of the seed: whenever the corpus has at least two
  identities the split returns, the training and the test partition have no identity in
  common and together hold exactly the identities of the corpus, so every identity is
  in exactly one partition. (A corpus of fewer than two identities is not split: the
  call raises \<open>ValueError\<close>.)
\<close>

theorem split_dataset_partition:
  assumes "distinct (source_identities files)"
    and "is_permutation (length files) (permutation (length files))"
  shows "(2 \<le> length files \<longrightarrow>
            (\<exists>train_set test_set.
               split_dataset files permutation = Inr (train_set, test_set)
             \<and> set train_set \<inter> set test_set = {}
             \<and> set train_set \<union> set test_set = set (source_identities files)
             \<and> distinct train_set \<and> distinct test_set))
       \<and> (length files < 2 \<longrightarrow> split_dataset files permutation = Inl ValueError)"
proof (intro conjI impI)
  assume "length files < 2"
  then show "split_dataset files permutation = Inl ValueError"
    by (simp add: split_dataset_def source_identities_def train_test_split_too_small)
next
  assume n: "2 \<le> length files"
  let ?df = "source_identities files"
  let ?k = "(length ?df + 4) div 5"
  let ?p = "permutation (length ?df)"
  let ?train = "map (\<lambda>i. ?df ! i) (drop ?k ?p)"
  let ?test = "map (\<lambda>i. ?df ! i) (take ?k ?p)"
  have len: "length ?df = length files"
    by (simp add: source_identities_def)
  have perm: "is_permutation (length ?df) ?p"
    using assms(2) by (simp only: len)
  have n': "2 \<le> length ?df"
    using n by (simp only: len)
  have res: "split_dataset files permutation = Inr (?train, ?test)"
    using train_test_split_fifth [of ?df permutation, OF n' perm]
    by (simp add: split_dataset_def)
  have k: "?k \<le> length ?df" by arith
  from split_partition [OF assms(1) perm k]
  have part: "set ?train \<inter> set ?test = {}" "set ?train \<union> set ?test = set ?df"
    by simp_all
  from perm have dp: "distinct ?p" and sp: "set ?p = {0..<length ?df}"
    by (simp_all add: is_permutation_def)
  have "distinct ?train"
    using assms(1) dp sp
    by (intro map_nth_inj) (auto dest: in_set_dropD)
  moreover have "distinct ?test"
    using assms(1) dp sp
    by (intro map_nth_inj) (auto dest: in_set_takeD)
  ultimately show "\<exists>train_set test_set.
               split_dataset files permutation = Inr (train_set, test_set)
             \<and> set train_set \<inter> set test_set = {}
             \<and> set train_set \<union> set test_set = set (source_identities files)
             \<and> distinct train_set \<and> distinct test_set"
    using res part by blast
qed

lemma example_permutation_valid: "is_permutation n (example_permutation n)"
  by (simp add: is_permutation_def example_permutation_def)

lemma example_files_identities:
  "source_identities [''01011426.mseed'', ''01020023.mseed'', ''01020428.mseed'',
                      ''01020441.mseed'', ''01020453.mseed'']
   = [''01011426'', ''01020023'', ''01020428'', ''01020441'', ''01020453'']"
  by (simp add: source_identities_def)

lemma example_permutation_5:
  "example_permutation (Suc (Suc (Suc (Suc (Suc 0))))) = [4, 3, 2, 1, 0]"
  by (simp add: example_permutation_def)

theorem split_dataset_partition_witness:
  "distinct (source_identities [''01011426.mseed'', ''01020023.mseed'', ''01020428.mseed'',
                                ''01020441.mseed'', ''01020453.mseed''])
   \<and> is_permutation 5 (example_permutation 5)
   \<and> (\<exists>train_set test_set.
         split_dataset [''01011426.mseed'', ''01020023.mseed'', ''01020428.mseed'',
                        ''01020441.mseed'', ''01020453.mseed''] example_permutation
           = Inr (train_set, test_set)
       \<and> train_set = [''01020441'', ''01020428'', ''01020023'', ''01011426'']
       \<and> test_set = [''01020453'']
       \<and> set train_set \<inter> set test_set = {}
       \<and> set train_set \<union> set test_set
           = set [''01011426'', ''01020023'', ''01020428'', ''01020441'', ''01020453''])"
proof -
  let ?files = "[''01011426.mseed'', ''01020023.mseed'', ''01020428.mseed'',
                 ''01020441.mseed'', ''01020453.mseed'']"
  have d: "distinct (source_identities ?files)"
    by (simp add: example_files_identities)
  have p: "is_permutation (length ?files) (example_permutation (length ?files))"
    by (rule example_permutation_valid)
  from split_dataset_partition [of ?files example_permutation, OF d p] obtain train_set test_set where
    res: "split_dataset ?files example_permutation = Inr (train_set, test_set)"
    and part: "set train_set \<inter> set test_set = {}"
      "set train_set \<union> set test_set = set (source_identities ?files)"
    by auto
  have "split_dataset ?files example_permutation
        = Inr ([''01020441'', ''01020428'', ''01020023'', ''01011426''], [''01020453''])"
    using train_test_split_fifth [of "source_identities ?files" example_permutation,
        OF _ example_permutation_valid]
    by (simp add: split_dataset_def example_files_identities example_permutation_5)
  with res have "train_set = [''01020441'', ''01020428'', ''01020023'', ''01011426'']"
    and "test_set = [''01020453'']"
    by simp_all
  then show ?thesis
    using res part d example_permutation_valid [of 5]
    by (simp add: example_files_identities)
qed

end
